theory Spec2Isabelle
  imports Complex_Main "HOL-Library.Sublist"
begin

section \<open>JavaScript strings, numbers and exceptions\<close>

text \<open>
  The validators of \<^verbatim>\<open>validation/validators.ts\<close> work on JavaScript strings. A string is
  modelled as a \<^typ>\<open>string\<close>, one \<^typ>\<open>char\<close> per code unit, so the model covers the
  strings whose code units are below 256 (ASCII and Latin-1).

  An exception is a value: a function of the source that can throw returns
  \<open>exn + 'a\<close>, with \<open>Inl\<close> for the exception thrown.
\<close>

datatype exn = SyntaxError | TypeError | RangeError | Error string

definition isWhiteSpace :: "char \<Rightarrow> bool" where
  "isWhiteSpace c = (c \<in> set [CHR 0x09, CHR 0x0A, CHR 0x0B, CHR 0x0C, CHR 0x0D, CHR 0x20, CHR 0xA0])"

text \<open>\<^verbatim>\<open>String.prototype.trim\<close>.\<close>

definition trim :: "string \<Rightarrow> string" where
  "trim s = rev (dropWhile isWhiteSpace (rev (dropWhile isWhiteSpace s)))"

definition isUpperCase :: "char \<Rightarrow> bool" where
  "isUpperCase c = (let n = (of_char c :: nat) in
     (65 \<le> n \<and> n \<le> 90) \<or> (192 \<le> n \<and> n \<le> 222 \<and> n \<noteq> 215))"

text \<open>
  \<^verbatim>\<open>String.prototype.toLowerCase\<close>: an upper-case letter (A to Z, and the Latin-1 letters
  0xC0 to 0xDE) has bit 5 clear, and its lower-case letter is the same code with bit 5 set.
\<close>

definition toLowerCase_char :: "char \<Rightarrow> char" where
  "toLowerCase_char c =
     (if isUpperCase c
      then (case c of Char b0 b1 b2 b3 b4 b5 b6 b7 \<Rightarrow> Char b0 b1 b2 b3 b4 True b6 b7)
      else c)"

definition toLowerCase :: "string \<Rightarrow> string" where
  "toLowerCase s = map toLowerCase_char s"

definition isDigit :: "char \<Rightarrow> bool" where
  "isDigit c = (c \<in> set ''0123456789'')"

definition isLowerHexDigit :: "char \<Rightarrow> bool" where
  "isLowerHexDigit c = (c \<in> set ''0123456789abcdef'')"

definition isHexDigit :: "char \<Rightarrow> bool" where
  "isHexDigit c = (c \<in> set ''0123456789abcdefABCDEF'')"

text \<open>The value of a digit in a radix up to 16; 16 for a character that is no digit.\<close>

definition digitValue :: "char \<Rightarrow> nat" where
  "digitValue c =
     (let n = (of_char c :: nat) in
      if 48 \<le> n \<and> n \<le> 57 then n - 48
      else if 97 \<le> n \<and> n \<le> 102 then n - 87
      else if 65 \<le> n \<and> n \<le> 70 then n - 55
      else 16)"

definition isRadixDigit :: "nat \<Rightarrow> char \<Rightarrow> bool" where
  "isRadixDigit radix c = (digitValue c < radix)"

definition digitsValue :: "nat \<Rightarrow> string \<Rightarrow> nat" where
  "digitsValue radix ds = foldl (\<lambda>acc c. acc * radix + digitValue c) 0 ds"

definition digitChar :: "nat \<Rightarrow> char" where
  "digitChar d = ''0123456789'' ! d"

text \<open>The decimal text of a natural number, and of an integer: what \<^verbatim>\<open>String(n)\<close>,
  a template literal and \<^verbatim>\<open>BigInt.prototype.toString\<close> give for an integer.\<close>

fun decimal :: "nat \<Rightarrow> string" where
  "decimal n = (if n < 10 then [digitChar n] else decimal (n div 10) @ [digitChar (n mod 10)])"

definition toString_int :: "int \<Rightarrow> string" where
  "toString_int n = (if n < 0 then CHR ''-'' # decimal (nat (- n)) else decimal (nat n))"

text \<open>
  \<^verbatim>\<open>BigInt(value)\<close> of a string (StringToBigInt of ECMAScript): surrounding white space is
  dropped; the empty text is 0; a decimal literal may carry a sign; a literal with the
  prefix 0x, 0o or 0b (either case) is read in that radix and carries no sign. Any other
  text throws a SyntaxError.
\<close>

definition radixLiteral :: "nat \<Rightarrow> string \<Rightarrow> int option" where
  "radixLiteral radix ds =
     (if ds \<noteq> [] \<and> list_all (isRadixDigit radix) ds then Some (int (digitsValue radix ds)) else None)"

definition StringToBigInt :: "string \<Rightarrow> int option" where
  "StringToBigInt str =
     (let s = trim str in
      if s = [] then Some 0
      else if take 2 s = ''0x'' \<or> take 2 s = ''0X'' then radixLiteral 16 (drop 2 s)
      else if take 2 s = ''0o'' \<or> take 2 s = ''0O'' then radixLiteral 8 (drop 2 s)
      else if take 2 s = ''0b'' \<or> take 2 s = ''0B'' then radixLiteral 2 (drop 2 s)
      else if hd s = CHR ''+'' then radixLiteral 10 (tl s)
      else if hd s = CHR ''-'' then map_option uminus (radixLiteral 10 (tl s))
      else radixLiteral 10 s)"

definition BigInt :: "string \<Rightarrow> exn + int" where
  "BigInt s = (case StringToBigInt s of None \<Rightarrow> Inl SyntaxError | Some n \<Rightarrow> Inr n)"

text \<open>\<^verbatim>\<open>BigInt(2) ** BigInt(e)\<close>: a negative exponent throws a RangeError.\<close>

definition BigInt_pow2 :: "int \<Rightarrow> exn + int" where
  "BigInt_pow2 e = (if e < 0 then Inl RangeError else Inr (2 ^ nat e))"

text \<open>
  A number, as far as the validators compute with one: an integer, or NaN
  (\<^verbatim>\<open>parseInt\<close> of a text with no digits).
\<close>

datatype number = NaN | Number int

definition toString_number :: "number \<Rightarrow> string" where
  "toString_number n = (case n of NaN \<Rightarrow> ''NaN'' | Number i \<Rightarrow> toString_int i)"

text \<open>
  \<^verbatim>\<open>parseInt(text)\<close> with no radix: leading white space is skipped, a sign is read, a
  prefix 0x or 0X selects radix 16, and the longest run of digits is the value; no digit
  gives NaN. \<^verbatim>\<open>parseInt(text, 10)\<close> is the same without the prefix rule. (A value
  beyond 2^53 is rounded by JavaScript; the model keeps it exact.)
\<close>

definition parseInt_radix :: "nat \<Rightarrow> string \<Rightarrow> number" where
  "parseInt_radix radix s =
     (let ds = takeWhile (isRadixDigit radix) s in
      if ds = [] then NaN else Number (int (digitsValue radix ds)))"

definition negate :: "number \<Rightarrow> number" where
  "negate n = (case n of NaN \<Rightarrow> NaN | Number i \<Rightarrow> Number (- i))"

definition parseInt_unsigned :: "bool \<Rightarrow> string \<Rightarrow> number" where
  "parseInt_unsigned hexPrefix s =
     (if hexPrefix \<and> (take 2 s = ''0x'' \<or> take 2 s = ''0X'') then parseInt_radix 16 (drop 2 s)
      else parseInt_radix 10 s)"

definition parseInt_signed :: "bool \<Rightarrow> string \<Rightarrow> number" where
  "parseInt_signed hexPrefix str =
     (let s = dropWhile isWhiteSpace str in
      if s \<noteq> [] \<and> hd s = CHR ''-'' then negate (parseInt_unsigned hexPrefix (tl s))
      else if s \<noteq> [] \<and> hd s = CHR ''+'' then parseInt_unsigned hexPrefix (tl s)
      else parseInt_unsigned hexPrefix s)"

definition parseInt :: "string \<Rightarrow> number" where
  "parseInt str = parseInt_signed True str"

definition parseInt10 :: "string \<Rightarrow> number" where
  "parseInt10 str = parseInt_signed False str"

text \<open>\<^verbatim>\<open>parseInt(text) || 256\<close>: NaN and 0 are falsy.\<close>

definition orDefault256 :: "number \<Rightarrow> int" where
  "orDefault256 n = (case n of NaN \<Rightarrow> 256 | Number i \<Rightarrow> if i = 0 then 256 else i)"

section \<open>JavaScript values\<close>

text \<open>
  \<^verbatim>\<open>ParameterValue\<close> of \<^verbatim>\<open>types/index.ts\<close> (string, boolean, bigint, array, object) and
  the values \<^verbatim>\<open>JSON.parse\<close> returns (null, boolean, number, string, array, object) are
  one datatype, together with the values that a property read finds on the prototype chain:
  the built-in functions (\<open>JSFunction\<close> of the name of the function) and the prototype
  objects (the value of \<^verbatim>\<open>__proto__\<close>). A number is carried by the text \<^verbatim>\<open>String\<close> gives for
  it, which is all the source ever reads of a number. An object is the list of its own
  properties in property order: it is a plain object, whose prototype is
  \<^verbatim>\<open>Object.prototype\<close> and whose properties hold data (neither the source nor \<^verbatim>\<open>JSON.parse\<close>
  stores a function in an object).
\<close>

datatype prototype =
  ObjectPrototype | ArrayPrototype | StringPrototype | NumberPrototype | BooleanPrototype

datatype jsvalue =
    JSNull
  | JSBoolean bool
  | JSNumber string
  | JSBigInt int
  | JSString string
  | JSArray "jsvalue list"
  | JSObject "(string \<times> jsvalue) list"
  | JSFunction string
  | JSPrototype prototype

type_synonym ParameterValue = jsvalue

text \<open>\<^verbatim>\<open>ParameterValidationResult\<close>: \<^verbatim>\<open>{ isValid: true, normalizedValue }\<close> or
  \<^verbatim>\<open>{ isValid: false, error }\<close>.\<close>

datatype ParameterValidationResult = Valid ParameterValue | Invalid string

section \<open>Scalar validators\<close>

text \<open>\<^verbatim>\<open>ADDRESS_REGEX = /^0x[a-f0-9]{40}$/\<close>.\<close>

definition ADDRESS_REGEX_test :: "string \<Rightarrow> bool" where
  "ADDRESS_REGEX_test s =
     (take 2 s = ''0x'' \<and> length (drop 2 s) = 40 \<and> list_all isLowerHexDigit (drop 2 s))"

text \<open>\<^verbatim>\<open>HEX_STRING_REGEX = /^0x[0-9a-fA-F]*$/\<close>.\<close>

definition HEX_STRING_REGEX_test :: "string \<Rightarrow> bool" where
  "HEX_STRING_REGEX_test s = (take 2 s = ''0x'' \<and> list_all isHexDigit (drop 2 s))"

definition validateAddress :: "string \<Rightarrow> ParameterValidationResult" where
  "validateAddress value =
     (if value = [] then Invalid ''Address is required''
      else
        let lowerValue = toLowerCase value;
            isValid = ADDRESS_REGEX_test lowerValue
        in if \<not> isValid
           then Invalid ''Invalid Ethereum address. Must be 40 hex characters starting with 0x''
           else Valid (JSString lowerValue))"

text \<open>
  \<^verbatim>\<open>validateUint(value, bits)\<close>. The body of the \<^verbatim>\<open>try\<close> is \<open>validateUint_try\<close>; the
  \<^verbatim>\<open>catch\<close> turns whatever it throws into "Invalid number format".
\<close>

definition validateUint_try :: "string \<Rightarrow> int \<Rightarrow> exn + ParameterValidationResult" where
  "validateUint_try value bits =
     (case BigInt value of
        Inl e \<Rightarrow> Inl e
      | Inr num \<Rightarrow>
          if num < 0 then Inr (Invalid ''Must be a non-negative number'')
          else
            (case BigInt_pow2 bits of
               Inl e \<Rightarrow> Inl e
             | Inr p \<Rightarrow>
                 let maxValue = p - 1 in
                 if num > maxValue
                 then Inr (Invalid (''Value exceeds uint'' @ toString_int bits @ '' max''))
                 else Inr (Valid (JSBigInt num))))"

definition validateUint :: "string \<Rightarrow> int \<Rightarrow> ParameterValidationResult" where
  "validateUint value bits =
     (if value = [] \<or> trim value \<noteq> value
      then Invalid ''Invalid number format (no spaces allowed)''
      else
        (case validateUint_try value bits of
           Inl e \<Rightarrow> Invalid ''Invalid number format''
         | Inr r \<Rightarrow> r))"

definition validateInt_try :: "string \<Rightarrow> int \<Rightarrow> exn + ParameterValidationResult" where
  "validateInt_try value bits =
     (case BigInt value of
        Inl e \<Rightarrow> Inl e
      | Inr num \<Rightarrow>
          (case BigInt_pow2 (bits - 1) of
             Inl e \<Rightarrow> Inl e
           | Inr p \<Rightarrow>
               let maxValue = p - 1;
                   minValue = - p
               in if num > maxValue \<or> num < minValue
                  then Inr (Invalid (''Value out of range for int'' @ toString_int bits))
                  else Inr (Valid (JSBigInt num))))"

definition validateInt :: "string \<Rightarrow> int \<Rightarrow> ParameterValidationResult" where
  "validateInt value bits =
     (if value = [] \<or> trim value \<noteq> value
      then Invalid ''Invalid number format (no spaces allowed)''
      else
        (case validateInt_try value bits of
           Inl e \<Rightarrow> Invalid ''Invalid number format''
         | Inr r \<Rightarrow> r))"

definition validateBool :: "string \<Rightarrow> ParameterValidationResult" where
  "validateBool value =
     (let normalized = trim (toLowerCase value) in
      if normalized = ''true'' then Valid (JSBoolean True)
      else if normalized = ''false'' then Valid (JSBoolean False)
      else Invalid ''Must be \"true\" or \"false\"'')"

text \<open>
  \<^verbatim>\<open>validateBytes(value, fixedLength?)\<close>; \<open>None\<close> is an absent \<^verbatim>\<open>fixedLength\<close>.
  \<^verbatim>\<open>byteLength\<close> is \<^verbatim>\<open>(value.length - 2) / 2\<close>, a half for an odd number of digits, and
  \<^verbatim>\<open>byteLength !== fixedLength\<close> holds for every \<^verbatim>\<open>byteLength\<close> when \<^verbatim>\<open>fixedLength\<close> is NaN.
\<close>

definition strictNotEqual :: "rat \<Rightarrow> number \<Rightarrow> bool" where
  "strictNotEqual x n = (case n of NaN \<Rightarrow> True | Number i \<Rightarrow> x \<noteq> of_int i)"

definition validateBytes :: "string \<Rightarrow> number option \<Rightarrow> ParameterValidationResult" where
  "validateBytes value fixedLength =
     (if value = [] then Invalid ''Bytes value is required''
      else if take 2 value \<noteq> ''0x'' then Invalid ''Must start with 0x''
      else if \<not> HEX_STRING_REGEX_test value then Invalid ''Invalid hex string''
      else
        let byteLength = (of_nat (length value) - 2) / (2 :: rat) in
        if fixedLength \<noteq> None \<and> strictNotEqual byteLength (the fixedLength)
        then Invalid (''Must be exactly '' @ toString_number (the fixedLength) @ '' bytes'')
        else if fixedLength \<noteq> None \<and> byteLength > 32
        then Invalid ''Fixed bytes cannot exceed 32''
        else Valid (JSString value))"

definition validateString :: "string \<Rightarrow> ParameterValidationResult" where
  "validateString value = Valid (JSString value)"

section \<open>JSON\<close>

text \<open>
  Property order of an object: the array-index keys in ascending order first, then the
  other keys in the order they were created. \<open>setProperty\<close> creates or overwrites an own
  property (the property creation of \<^verbatim>\<open>JSON.parse\<close>, and an assignment to a key other than
  \<^verbatim>\<open>__proto__\<close>): an existing key keeps its place.
\<close>

definition isArrayIndex :: "string \<Rightarrow> bool" where
  "isArrayIndex k =
     (k \<noteq> [] \<and> list_all isDigit k \<and> (k = ''0'' \<or> hd k \<noteq> CHR ''0'')
      \<and> length k \<le> 10 \<and> int (digitsValue 10 k) < 4294967295)"

fun insertIndexProperty :: "string \<Rightarrow> 'v \<Rightarrow> (string \<times> 'v) list \<Rightarrow> (string \<times> 'v) list" where
  "insertIndexProperty k v [] = [(k, v)]"
| "insertIndexProperty k v ((k', v') # kvs) =
     (if isArrayIndex k' \<and> digitsValue 10 k' < digitsValue 10 k
      then (k', v') # insertIndexProperty k v kvs
      else (k, v) # (k', v') # kvs)"

definition setProperty :: "(string \<times> 'v) list \<Rightarrow> string \<Rightarrow> 'v \<Rightarrow> (string \<times> 'v) list" where
  "setProperty obj k v =
     (if k \<in> fst ` set obj then map (\<lambda>(k', v'). if k' = k then (k', v) else (k', v')) obj
      else if isArrayIndex k then insertIndexProperty k v obj
      else obj @ [(k, v)])"

text \<open>
  The assignment \<^verbatim>\<open>obj[key] = v\<close> to a plain object. For the key \<^verbatim>\<open>__proto__\<close> of an object
  with no own property of that name the assignment runs the setter that
  \<^verbatim>\<open>Object.prototype\<close> defines: no own property is created. (The setter replaces the
  prototype of the object when \<^verbatim>\<open>v\<close> is an object and does nothing otherwise; the source
  reads no property of an object it has assigned to, and the list of own properties does
  not record the replaced prototype.) Every other key becomes an own property, also when
  the prototype chain has a property of that name.
\<close>

definition assignProperty :: "(string \<times> 'v) list \<Rightarrow> string \<Rightarrow> 'v \<Rightarrow> (string \<times> 'v) list" where
  "assignProperty obj k v =
     (if k = ''__proto__'' \<and> k \<notin> fst ` set obj then obj else setProperty obj k v)"

text \<open>
  The properties with a string key that the prototype objects of the platform define
  (ECMAScript 2024 with its Annex B, as in Node 20 and later): \<open>methodNames\<close> lists the
  methods, \<^verbatim>\<open>constructor\<close> is the constructor function, and \<^verbatim>\<open>__proto__\<close> is the accessor
  of \<^verbatim>\<open>Object.prototype\<close>, which returns the prototype of the value it is read from.
  \<^verbatim>\<open>trimLeft\<close> and \<^verbatim>\<open>trimRight\<close> are the functions \<^verbatim>\<open>trimStart\<close> and \<^verbatim>\<open>trimEnd\<close>.
\<close>

definition methodNames :: "prototype \<Rightarrow> string list" where
  "methodNames p =
     (case p of
        ObjectPrototype \<Rightarrow>
          [''__defineGetter__'', ''__defineSetter__'', ''__lookupGetter__'', ''__lookupSetter__'',
           ''hasOwnProperty'', ''isPrototypeOf'', ''propertyIsEnumerable'', ''toLocaleString'',
           ''toString'', ''valueOf'']
      | ArrayPrototype \<Rightarrow>
          [''at'', ''concat'', ''copyWithin'', ''entries'', ''every'', ''fill'', ''filter'',
           ''find'', ''findIndex'', ''findLast'', ''findLastIndex'', ''flat'', ''flatMap'',
           ''forEach'', ''includes'', ''indexOf'', ''join'', ''keys'', ''lastIndexOf'', ''map'',
           ''pop'', ''push'', ''reduce'', ''reduceRight'', ''reverse'', ''shift'', ''slice'',
           ''some'', ''sort'', ''splice'', ''toLocaleString'', ''toReversed'', ''toSorted'',
           ''toSpliced'', ''toString'', ''unshift'', ''values'', ''with'']
      | StringPrototype \<Rightarrow>
          [''anchor'', ''at'', ''big'', ''blink'', ''bold'', ''charAt'', ''charCodeAt'',
           ''codePointAt'', ''concat'', ''endsWith'', ''fixed'', ''fontcolor'', ''fontsize'',
           ''includes'', ''indexOf'', ''isWellFormed'', ''italics'', ''lastIndexOf'', ''link'',
           ''localeCompare'', ''match'', ''matchAll'', ''normalize'', ''padEnd'', ''padStart'',
           ''repeat'', ''replace'', ''replaceAll'', ''search'', ''slice'', ''small'', ''split'',
           ''startsWith'', ''strike'', ''sub'', ''substr'', ''substring'', ''sup'',
           ''toLocaleLowerCase'', ''toLocaleUpperCase'', ''toLowerCase'', ''toString'',
           ''toUpperCase'', ''toWellFormed'', ''trim'', ''trimEnd'', ''trimLeft'', ''trimRight'',
           ''trimStart'', ''valueOf'']
      | NumberPrototype \<Rightarrow>
          [''toExponential'', ''toFixed'', ''toLocaleString'', ''toPrecision'', ''toString'',
           ''valueOf'']
      | BooleanPrototype \<Rightarrow> [''toString'', ''valueOf''])"

definition constructorName :: "prototype \<Rightarrow> string" where
  "constructorName p =
     (case p of
        ObjectPrototype \<Rightarrow> ''Object''
      | ArrayPrototype \<Rightarrow> ''Array''
      | StringPrototype \<Rightarrow> ''String''
      | NumberPrototype \<Rightarrow> ''Number''
      | BooleanPrototype \<Rightarrow> ''Boolean'')"

text \<open>
  \<open>inheritedProperty p k\<close>: the read of the key \<open>k\<close> from a value that has no own property
  \<open>k\<close> and whose prototype is \<open>p\<close>; the chain is \<open>p\<close>, then \<^verbatim>\<open>Object.prototype\<close>.
  \<open>None\<close> is \<^verbatim>\<open>undefined\<close>.
\<close>

definition inheritedProperty :: "prototype \<Rightarrow> string \<Rightarrow> jsvalue option" where
  "inheritedProperty p k =
     (if k = ''__proto__'' then Some (JSPrototype p)
      else if k = ''constructor'' then Some (JSFunction (constructorName p))
      else if k \<in> set (methodNames p) \<or> k \<in> set (methodNames ObjectPrototype)
      then Some (JSFunction (if k = ''trimLeft'' then ''trimStart''
                             else if k = ''trimRight'' then ''trimEnd'' else k))
      else None)"

text \<open>\<^verbatim>\<open>obj[key]\<close> for a plain object: the own property, or else the property that
  \<^verbatim>\<open>Object.prototype\<close> defines. \<open>None\<close> is \<^verbatim>\<open>undefined\<close>.\<close>

definition getProperty :: "(string \<times> jsvalue) list \<Rightarrow> string \<Rightarrow> jsvalue option" where
  "getProperty obj k =
     (case map_of obj k of
        Some v \<Rightarrow> Some v
      | None \<Rightarrow> inheritedProperty ObjectPrototype k)"

text \<open>
  \<^verbatim>\<open>String(v)\<close> of a number literal of JSON. The literal is \<open>sign int . frac e exp\<close>; its
  decimal digits are normalised and printed the way \<^verbatim>\<open>Number.prototype.toString\<close> prints
  them. This is exact for a literal of at most 15 significant digits in the range of the
  normal doubles; the rounding of longer literals to a double is not modelled.
\<close>

definition formatDecimal :: "bool \<Rightarrow> string \<Rightarrow> int \<Rightarrow> string" where
  "formatDecimal negative digits exponent =
     (let ds = dropWhile (\<lambda>c. c = CHR ''0'') digits in
      if ds = [] then ''0''
      else
        let sig = rev (dropWhile (\<lambda>c. c = CHR ''0'') (rev ds));
            k = int (length sig);
            n = int (length ds) + exponent;
            body =
              (if k \<le> n \<and> n \<le> 21 then sig @ replicate (nat (n - k)) (CHR ''0'')
               else if 0 < n \<and> n \<le> 21 then take (nat n) sig @ ''.'' @ drop (nat n) sig
               else if - 6 < n \<and> n \<le> 0 then ''0.'' @ replicate (nat (- n)) (CHR ''0'') @ sig
               else
                 let e = n - 1;
                     expo = (if e < 0 then ''-'' else ''+'') @ decimal (nat \<bar>e\<bar>)
                 in if k = 1 then sig @ ''e'' @ expo
                    else [hd sig] @ ''.'' @ tl sig @ ''e'' @ expo)
        in (if negative then ''-'' else []) @ body)"

text \<open>Scanning a number literal: the text \<^verbatim>\<open>String\<close> gives for it, and the rest of the input.\<close>

definition scanNumber :: "string \<Rightarrow> (string \<times> string) option" where
  "scanNumber s =
     (let negative = (s \<noteq> [] \<and> hd s = CHR ''-'');
          s1 = (if negative then tl s else s);
          intPart = takeWhile isDigit s1;
          s2 = dropWhile isDigit s1
      in if intPart = [] \<or> (hd intPart = CHR ''0'' \<and> length intPart > 1) then None
         else
           let hasFrac = (s2 \<noteq> [] \<and> hd s2 = CHR ''.'');
               frac = (if hasFrac then takeWhile isDigit (tl s2) else []);
               s3 = (if hasFrac then dropWhile isDigit (tl s2) else s2)
           in if hasFrac \<and> frac = [] then None
              else
                let hasExp = (s3 \<noteq> [] \<and> (hd s3 = CHR ''e'' \<or> hd s3 = CHR ''E''));
                    s4 = (if hasExp then tl s3 else s3);
                    expNegative = (hasExp \<and> s4 \<noteq> [] \<and> hd s4 = CHR ''-'');
                    s5 = (if hasExp \<and> s4 \<noteq> [] \<and> (hd s4 = CHR ''-'' \<or> hd s4 = CHR ''+'')
                          then tl s4 else s4);
                    expDigits = (if hasExp then takeWhile isDigit s5 else []);
                    s6 = (if hasExp then dropWhile isDigit s5 else s3)
                in if hasExp \<and> expDigits = [] then None
                   else
                     let e = (if expNegative then - int (digitsValue 10 expDigits)
                              else int (digitsValue 10 expDigits))
                     in Some (formatDecimal negative (intPart @ frac) (e - int (length frac)), s6))"

definition isJSONWhiteSpace :: "char \<Rightarrow> bool" where
  "isJSONWhiteSpace c = (c = CHR 0x20 \<or> c = CHR 0x09 \<or> c = CHR 0x0A \<or> c = CHR 0x0D)"

definition skipWhiteSpace :: "string \<Rightarrow> string" where
  "skipWhiteSpace s = dropWhile isJSONWhiteSpace s"

text \<open>The character an escape \<^verbatim>\<open>\c\<close> of a JSON string stands for.\<close>

definition simpleEscape :: "char \<Rightarrow> char option" where
  "simpleEscape c =
     (if c = CHR 0x22 then Some (CHR 0x22)
      else if c = CHR 0x5C then Some (CHR 0x5C)
      else if c = CHR ''/'' then Some (CHR ''/'')
      else if c = CHR ''b'' then Some (CHR 0x08)
      else if c = CHR ''f'' then Some (CHR 0x0C)
      else if c = CHR ''n'' then Some (CHR 0x0A)
      else if c = CHR ''r'' then Some (CHR 0x0D)
      else if c = CHR ''t'' then Some (CHR 0x09)
      else None)"

text \<open>
  The characters of a JSON string after its opening quote: the string and the input after
  the closing quote. An escape \<^verbatim>\<open>\uXXXX\<close> of a code unit above 0xFF has no \<^typ>\<open>char\<close> and
  is outside the model (it is refused).
\<close>

fun scanString :: "string \<Rightarrow> (string \<times> string) option" where
  "scanString [] = None"
| "scanString (c # cs) =
     (if c = CHR 0x22 then Some ([], cs)
      else if c = CHR 0x5C then
        (case cs of
           [] \<Rightarrow> None
         | e # cs' \<Rightarrow>
             if e = CHR ''u'' then
               (case cs' of
                  h1 # h2 # h3 # h4 # r \<Rightarrow>
                    if list_all isHexDigit [h1, h2, h3, h4] \<and> digitsValue 16 [h1, h2] = 0
                    then map_option (\<lambda>(str, rest). (char_of (digitsValue 16 [h3, h4]) # str, rest))
                           (scanString r)
                    else None
                | _ \<Rightarrow> None)
             else
               (case simpleEscape e of
                  None \<Rightarrow> None
                | Some ch \<Rightarrow> map_option (\<lambda>(str, rest). (ch # str, rest)) (scanString cs')))
      else if (of_char c :: nat) < 32 then None
      else map_option (\<lambda>(str, rest). (c # str, rest)) (scanString cs))"

text \<open>
  The recursive descent over a JSON text. The first argument bounds the number of nested
  calls; \<open>JSON_parse\<close> starts it high enough for the whole text.
\<close>

fun parseValue :: "nat \<Rightarrow> string \<Rightarrow> (jsvalue \<times> string) option"
  and parseElements :: "nat \<Rightarrow> string \<Rightarrow> jsvalue list \<Rightarrow> (jsvalue \<times> string) option"
  and parseMembers :: "nat \<Rightarrow> string \<Rightarrow> (string \<times> jsvalue) list \<Rightarrow> (jsvalue \<times> string) option"
where
  "parseValue 0 s = None"
| "parseValue (Suc n) s =
     (let t = skipWhiteSpace s in
      if t = [] then None
      else if hd t = CHR 0x22 then map_option (\<lambda>(str, rest). (JSString str, rest)) (scanString (tl t))
      else if hd t = CHR ''['' then
        (let u = skipWhiteSpace (tl t) in
         if u \<noteq> [] \<and> hd u = CHR '']'' then Some (JSArray [], tl u)
         else parseElements n (tl t) [])
      else if hd t = CHR ''{'' then
        (let u = skipWhiteSpace (tl t) in
         if u \<noteq> [] \<and> hd u = CHR ''}'' then Some (JSObject [], tl u)
         else parseMembers n (tl t) [])
      else if take 4 t = ''true'' then Some (JSBoolean True, drop 4 t)
      else if take 5 t = ''false'' then Some (JSBoolean False, drop 5 t)
      else if take 4 t = ''null'' then Some (JSNull, drop 4 t)
      else map_option (\<lambda>(text, rest). (JSNumber text, rest)) (scanNumber t))"
| "parseElements 0 s acc = None"
| "parseElements (Suc n) s acc =
     (case parseValue n s of
        None \<Rightarrow> None
      | Some (v, rest) \<Rightarrow>
          let t = skipWhiteSpace rest in
          if t = [] then None
          else if hd t = CHR '','' then parseElements n (tl t) (acc @ [v])
          else if hd t = CHR '']'' then Some (JSArray (acc @ [v]), tl t)
          else None)"
| "parseMembers 0 s acc = None"
| "parseMembers (Suc n) s acc =
     (let t = skipWhiteSpace s in
      if t = [] \<or> hd t \<noteq> CHR 0x22 then None
      else
        (case scanString (tl t) of
           None \<Rightarrow> None
         | Some (key, rest) \<Rightarrow>
             let u = skipWhiteSpace rest in
             if u = [] \<or> hd u \<noteq> CHR '':'' then None
             else
               (case parseValue n (tl u) of
                  None \<Rightarrow> None
                | Some (v, rest') \<Rightarrow>
                    let w = skipWhiteSpace rest' in
                    if w = [] then None
                    else if hd w = CHR '','' then parseMembers n (tl w) (setProperty acc key v)
                    else if hd w = CHR ''}'' then Some (JSObject (setProperty acc key v), tl w)
                    else None)))"

text \<open>\<^verbatim>\<open>JSON.parse(text)\<close>: the value, or the SyntaxError thrown.\<close>

definition JSON_parse :: "string \<Rightarrow> exn + jsvalue" where
  "JSON_parse text =
     (case parseValue (2 * length text + 2) text of
        None \<Rightarrow> Inl SyntaxError
      | Some (v, rest) \<Rightarrow> if skipWhiteSpace rest = [] then Inr v else Inl SyntaxError)"

text \<open>
  \<^verbatim>\<open>JSON.stringify(v)\<close> with no indentation; \<open>None\<close> is the result \<^verbatim>\<open>undefined\<close>, which is the
  result for a function. A bigint anywhere in \<open>v\<close> throws a TypeError. Inside an array a
  function is printed as \<^verbatim>\<open>null\<close>, inside an object its property is left out. The
  prototype objects have no enumerable property: \<^verbatim>\<open>Object.prototype\<close> prints as an
  empty object, \<^verbatim>\<open>Array.prototype\<close> as an empty array, and the other three as the
  primitive value they wrap.
\<close>

definition hexDigitChar :: "nat \<Rightarrow> char" where
  "hexDigitChar d = ''0123456789abcdef'' ! d"

definition quoteChar :: "char \<Rightarrow> string" where
  "quoteChar c =
     (if c = CHR 0x22 then [CHR 0x5C, CHR 0x22]
      else if c = CHR 0x5C then [CHR 0x5C, CHR 0x5C]
      else if c = CHR 0x08 then [CHR 0x5C, CHR ''b'']
      else if c = CHR 0x0C then [CHR 0x5C, CHR ''f'']
      else if c = CHR 0x0A then [CHR 0x5C, CHR ''n'']
      else if c = CHR 0x0D then [CHR 0x5C, CHR ''r'']
      else if c = CHR 0x09 then [CHR 0x5C, CHR ''t'']
      else if (of_char c :: nat) < 32
      then [CHR 0x5C, CHR ''u'', CHR ''0'', CHR ''0'',
            hexDigitChar ((of_char c :: nat) div 16), hexDigitChar ((of_char c :: nat) mod 16)]
      else [c])"

definition quoteJSONString :: "string \<Rightarrow> string" where
  "quoteJSONString s = [CHR 0x22] @ concat (map quoteChar s) @ [CHR 0x22]"

definition joinWith :: "string \<Rightarrow> string list \<Rightarrow> string" where
  "joinWith sep xs = (case xs of [] \<Rightarrow> [] | y # ys \<Rightarrow> y @ concat (map (\<lambda>z. sep @ z) ys))"

fun JSON_stringify :: "jsvalue \<Rightarrow> exn + string option"
  and stringifyElements :: "jsvalue list \<Rightarrow> exn + string list"
  and stringifyMembers :: "(string \<times> jsvalue) list \<Rightarrow> exn + string list"
where
  "JSON_stringify JSNull = Inr (Some ''null'')"
| "JSON_stringify (JSBoolean b) = Inr (Some (if b then ''true'' else ''false''))"
| "JSON_stringify (JSNumber text) =
     Inr (Some (if text = ''NaN'' \<or> text = ''Infinity'' \<or> text = ''-Infinity'' then ''null''
                else text))"
| "JSON_stringify (JSBigInt n) = Inl TypeError"
| "JSON_stringify (JSString s) = Inr (Some (quoteJSONString s))"
| "JSON_stringify (JSArray vs) =
     (case stringifyElements vs of
        Inl e \<Rightarrow> Inl e
      | Inr texts \<Rightarrow> Inr (Some (''['' @ joinWith '','' texts @ '']'')))"
| "JSON_stringify (JSObject kvs) =
     (case stringifyMembers kvs of
        Inl e \<Rightarrow> Inl e
      | Inr texts \<Rightarrow> Inr (Some (''{'' @ joinWith '','' texts @ ''}'')))"
| "JSON_stringify (JSFunction f) = Inr None"
| "JSON_stringify (JSPrototype p) =
     Inr (Some (case p of
                  ObjectPrototype \<Rightarrow> ''{}''
                | ArrayPrototype \<Rightarrow> ''[]''
                | StringPrototype \<Rightarrow> [CHR 0x22, CHR 0x22]
                | NumberPrototype \<Rightarrow> ''0''
                | BooleanPrototype \<Rightarrow> ''false''))"
| "stringifyElements [] = Inr []"
| "stringifyElements (v # vs) =
     (case JSON_stringify v of
        Inl e \<Rightarrow> Inl e
      | Inr text \<Rightarrow>
          (case stringifyElements vs of
             Inl e \<Rightarrow> Inl e
           | Inr texts \<Rightarrow> Inr ((case text of None \<Rightarrow> ''null'' | Some t \<Rightarrow> t) # texts)))"
| "stringifyMembers [] = Inr []"
| "stringifyMembers ((k, v) # kvs) =
     (case JSON_stringify v of
        Inl e \<Rightarrow> Inl e
      | Inr text \<Rightarrow>
          (case stringifyMembers kvs of
             Inl e \<Rightarrow> Inl e
           | Inr texts \<Rightarrow>
               Inr (case text of
                      None \<Rightarrow> texts
                    | Some t \<Rightarrow> (quoteJSONString k @ '':'' @ t) # texts)))"

text \<open>\<^verbatim>\<open>JSON.stringify(v)\<close> where the source uses the result as a text: \<open>v\<close> is no function
  there (its \<^verbatim>\<open>typeof\<close> is \<^verbatim>\<open>object\<close>, or it is an array or an object the source has built), so
  the result is not \<^verbatim>\<open>undefined\<close>.\<close>

definition stringifyText :: "jsvalue \<Rightarrow> exn + string" where
  "stringifyText v = (case JSON_stringify v of Inl e \<Rightarrow> Inl e | Inr text \<Rightarrow> Inr (the text))"

text \<open>\<^verbatim>\<open>typeof v === 'object'\<close>: null, arrays, objects and the prototype objects.
  \<^verbatim>\<open>Array.isArray(v)\<close>: arrays and \<^verbatim>\<open>Array.prototype\<close>.\<close>

definition typeofObject :: "jsvalue \<Rightarrow> bool" where
  "typeofObject v =
     (case v of
        JSNull \<Rightarrow> True
      | JSArray _ \<Rightarrow> True
      | JSObject _ \<Rightarrow> True
      | JSPrototype _ \<Rightarrow> True
      | _ \<Rightarrow> False)"

definition Array_isArray :: "jsvalue \<Rightarrow> bool" where
  "Array_isArray v = (case v of JSArray _ \<Rightarrow> True | JSPrototype ArrayPrototype \<Rightarrow> True | _ \<Rightarrow> False)"

text \<open>
  \<^verbatim>\<open>String(v)\<close>. An array joins the texts of its elements with commas, null as the empty
  text. A plain object is \<^verbatim>\<open>[object Object]\<close>, the result of the \<^verbatim>\<open>toString\<close> it inherits;
  an object with an own property \<^verbatim>\<open>toString\<close> (data, which cannot be called) has no
  primitive value, and the conversion throws a TypeError (\<^verbatim>\<open>valueOf\<close> being data as well,
  or the inherited one, which returns the object). A built-in function is printed the way
  Node prints it.
\<close>

fun String_of :: "jsvalue \<Rightarrow> exn + string"
  and String_elements :: "jsvalue list \<Rightarrow> exn + string list"
where
  "String_of JSNull = Inr ''null''"
| "String_of (JSBoolean b) = Inr (if b then ''true'' else ''false'')"
| "String_of (JSNumber text) = Inr text"
| "String_of (JSBigInt n) = Inr (toString_int n)"
| "String_of (JSString s) = Inr s"
| "String_of (JSArray vs) =
     (case String_elements vs of
        Inl e \<Rightarrow> Inl e
      | Inr texts \<Rightarrow> Inr (joinWith '','' texts))"
| "String_of (JSObject kvs) =
     (if map_of kvs ''toString'' = None then Inr ''[object Object]'' else Inl TypeError)"
| "String_of (JSFunction f) = Inr (''function '' @ f @ ''() { [native code] }'')"
| "String_of (JSPrototype p) =
     Inr (case p of
            ObjectPrototype \<Rightarrow> ''[object Object]''
          | ArrayPrototype \<Rightarrow> []
          | StringPrototype \<Rightarrow> []
          | NumberPrototype \<Rightarrow> ''0''
          | BooleanPrototype \<Rightarrow> ''false'')"
| "String_elements [] = Inr []"
| "String_elements (v # vs) =
     (case (if v = JSNull then Inr [] else String_of v) of
        Inl e \<Rightarrow> Inl e
      | Inr text \<Rightarrow>
          (case String_elements vs of
             Inl e \<Rightarrow> Inl e
           | Inr texts \<Rightarrow> Inr (text # texts)))"

section \<open>The type grammar parser\<close>

record ParsedType =
  baseType :: string
  isArray :: bool
  arrayDimensions :: "number option list"
  isTuple :: bool

definition isLineTerminator :: "char \<Rightarrow> bool" where
  "isLineTerminator c = (c = CHR 0x0A \<or> c = CHR 0x0D)"

text \<open>
  \<^verbatim>\<open>type.match(ARRAY_TYPE_REGEX)\<close> with \<^verbatim>\<open>ARRAY_TYPE_REGEX = /^(.+?)(\[.*\])$/\<close>: the two
  groups of the match, or \<open>None\<close> for no match. The dot matches no line terminator, the
  text must end with a closing bracket, and the lazy first group ends at the first opening
  bracket after the first character.
\<close>

definition ARRAY_TYPE_REGEX_match :: "string \<Rightarrow> (string \<times> string) option" where
  "ARRAY_TYPE_REGEX_match ty =
     (if ty = [] \<or> list_ex isLineTerminator ty \<or> last ty \<noteq> CHR '']'' then None
      else
        let rest = dropWhile (\<lambda>c. c \<noteq> CHR ''['') (tl ty) in
        if rest = [] then None
        else Some (hd ty # takeWhile (\<lambda>c. c \<noteq> CHR ''['') (tl ty), rest))"

text \<open>
  \<^verbatim>\<open>dimensionStr.match(ARRAY_DIMENSION_REGEX)\<close> with the global
  \<^verbatim>\<open>ARRAY_DIMENSION_REGEX = /\[(\d*)\]/g\<close>: the matched substrings from left to right (the
  empty list stands for \<^verbatim>\<open>null || []\<close>).
\<close>

function ARRAY_DIMENSION_REGEX_matches :: "string \<Rightarrow> string list" where
  "ARRAY_DIMENSION_REGEX_matches [] = []"
| "ARRAY_DIMENSION_REGEX_matches (c # cs) =
     (let rest = dropWhile isDigit cs in
      if c = CHR ''['' \<and> rest \<noteq> [] \<and> hd rest = CHR '']''
      then (c # takeWhile isDigit cs @ '']'') # ARRAY_DIMENSION_REGEX_matches (tl rest)
      else ARRAY_DIMENSION_REGEX_matches cs)"
  by pat_completeness auto
termination
proof (relation "measure length")
  fix c :: char and cs rest :: string
  assume "rest = dropWhile isDigit cs"
  then have "length rest \<le> length cs"
    by (simp add: length_dropWhile_le)
  then have "length (tl rest) \<le> length cs"
    by simp
  then show "(tl rest, c # cs) \<in> measure length" by simp
qed auto

text \<open>
  \<^verbatim>\<open>dim.match(FIXED_DIMENSION_REGEX)\<close> with \<^verbatim>\<open>FIXED_DIMENSION_REGEX = /\[(\d+)\]/\<close>: the
  group of the first match, or \<open>None\<close>.
\<close>

fun FIXED_DIMENSION_REGEX_match :: "string \<Rightarrow> string option" where
  "FIXED_DIMENSION_REGEX_match [] = None"
| "FIXED_DIMENSION_REGEX_match (c # cs) =
     (let ds = takeWhile isDigit cs; rest = dropWhile isDigit cs in
      if c = CHR ''['' \<and> ds \<noteq> [] \<and> rest \<noteq> [] \<and> hd rest = CHR '']'' then Some ds
      else FIXED_DIMENSION_REGEX_match cs)"

definition parseType :: "string \<Rightarrow> ParsedType" where
  "parseType ty =
     (let result = \<lparr>baseType = ty, isArray = False, arrayDimensions = [], isTuple = False\<rparr>;
          result = (if ty = ''tuple'' \<or> prefix ''tuple['' ty
                    then result\<lparr>isTuple := True, baseType := ''tuple''\<rparr> else result)
      in case ARRAY_TYPE_REGEX_match ty of
           None \<Rightarrow> result
         | Some (group1, dimensionStr) \<Rightarrow>
             let result = result\<lparr>baseType := group1, isArray := True\<rparr>;
                 dimensions = ARRAY_DIMENSION_REGEX_matches dimensionStr;
                 result = result\<lparr>arrayDimensions :=
                   map (\<lambda>dim. case FIXED_DIMENSION_REGEX_match dim of
                                 Some digits \<Rightarrow> Some (parseInt10 digits)
                               | None \<Rightarrow> None) dimensions\<rparr>
             in if baseType result = ''tuple'' then result\<lparr>isTuple := True\<rparr> else result)"

text \<open>
  The element type of an array type, computed the same way in \<^verbatim>\<open>validateParameterType\<close>,
  \<^verbatim>\<open>normalizeParameterValue\<close> and \<^verbatim>\<open>denormalizeParameterValue\<close>:
  \<^verbatim>\<open>innerType = parsed.baseType\<close>, and with more than one dimension
  \<^verbatim>\<open>`${parsed.baseType}${remainingDimensions.map((d) => `[${d ?? ''}]`).join('')}`\<close>.
\<close>

definition renderDimension :: "number option \<Rightarrow> string" where
  "renderDimension d = ''['' @ (case d of None \<Rightarrow> '''' | Some n \<Rightarrow> toString_number n) @ '']''"

definition innerTypeOf :: "ParsedType \<Rightarrow> string" where
  "innerTypeOf parsed =
     (if length (arrayDimensions parsed) > 1
      then (let remainingDimensions = drop 1 (arrayDimensions parsed)
            in baseType parsed @ concat (map renderDimension remainingDimensions))
      else baseType parsed)"

section \<open>Composite validators and the dispatcher\<close>

text \<open>\<^verbatim>\<open>AbiParameter\<close> of \<^verbatim>\<open>types/index.ts\<close>, with the fields the validators read.\<close>

datatype AbiParameter =
  AbiParameter (name: string) (type: string) (components: "AbiParameter list option")

text \<open>
  \<^verbatim>\<open>typeof element === 'object' ? JSON.stringify(element) : String(element)\<close>, the text of
  an array element or of a tuple field that is handed to the dispatcher.
\<close>

definition elementText :: "jsvalue \<Rightarrow> exn + string" where
  "elementText element = (if typeofObject element then stringifyText element else String_of element)"

text \<open>\<^verbatim>\<open>expectedLength !== undefined && parsed.length !== expectedLength\<close>.\<close>

definition lengthMismatch :: "nat \<Rightarrow> number option \<Rightarrow> bool" where
  "lengthMismatch len expectedLength =
     (case expectedLength of
        None \<Rightarrow> False
      | Some NaN \<Rightarrow> True
      | Some (Number n) \<Rightarrow> int len \<noteq> n)"

text \<open>The number of opening brackets of a type string: it decreases from an array type
  to its element type, which is why the dispatcher terminates.\<close>

definition bracketCount :: "string \<Rightarrow> nat" where
  "bracketCount s = length (filter (\<lambda>c. c = CHR ''['') s)"

lemma digitChar_isDigit: "d < 10 \<Longrightarrow> isDigit (digitChar d)"
proof -
  assume "d < 10"
  then have "d \<in> {0,1,2,3,4,5,6,7,8,9}" by auto
  then show ?thesis by (auto simp: digitChar_def isDigit_def)
qed

lemma isDigit_not_special:
  "isDigit c \<Longrightarrow> \<not> isWhiteSpace c \<and> c \<notin> set ''xXoObB+-[''"
  unfolding isDigit_def
  apply (simp only: list.set insert_iff empty_iff)
  apply (elim disjE FalseE; simp add: isWhiteSpace_def)
  done

declare decimal.simps [simp del]

lemma decimal_nonempty: "decimal n \<noteq> []"
  by (subst decimal.simps) simp

lemma decimal_digits: "list_all isDigit (decimal n)"
proof (induction n rule: decimal.induct)
  case (1 n)
  show ?case
    by (subst decimal.simps) (use 1 in \<open>auto simp: digitChar_isDigit\<close>)
qed

lemma bracketCount_append [simp]: "bracketCount (xs @ ys) = bracketCount xs + bracketCount ys"
  by (simp add: bracketCount_def)

lemma bracketCount_digits: "list_all isDigit ds \<Longrightarrow> bracketCount ds = 0"
  by (induction ds) (use isDigit_not_special in \<open>auto simp: bracketCount_def\<close>)

lemma bracketCount_toString_number: "bracketCount (toString_number n) = 0"
proof (cases n)
  case NaN
  then show ?thesis by (simp add: toString_number_def bracketCount_def)
next
  case (Number i)
  have "bracketCount (CHR ''-'' # ds) = bracketCount ds" for ds
    by (simp add: bracketCount_def)
  then show ?thesis
    using Number by (simp add: toString_number_def toString_int_def bracketCount_digits decimal_digits)
qed

lemma bracketCount_renderDimension: "bracketCount (renderDimension d) = 1"
proof -
  have "bracketCount ''['' = 1" "bracketCount '']'' = 0" by (simp_all add: bracketCount_def)
  then show ?thesis
    by (cases d) (simp_all only: renderDimension_def bracketCount_append option.case
        bracketCount_toString_number, simp_all add: bracketCount_def)
qed

lemma bracketCount_renderDimensions:
  "bracketCount (concat (map renderDimension ds)) = length ds"
  by (induction ds) (simp_all add: bracketCount_renderDimension, simp add: bracketCount_def)

lemma bracketCount_tl: "bracketCount (tl xs) \<le> bracketCount xs"
  by (cases xs) (simp_all add: bracketCount_def)

lemma ARRAY_DIMENSION_REGEX_matches_count:
  "length (ARRAY_DIMENSION_REGEX_matches s) \<le> bracketCount s"
proof (induction s rule: ARRAY_DIMENSION_REGEX_matches.induct)
  case 1
  then show ?case by simp
next
  case (2 c cs)
  let ?rest = "dropWhile isDigit cs"
  show ?case
  proof (cases "c = CHR ''['' \<and> ?rest \<noteq> [] \<and> hd ?rest = CHR '']''")
    case True
    have "bracketCount (tl ?rest) \<le> bracketCount ?rest"
      by (rule bracketCount_tl)
    also have "\<dots> \<le> bracketCount (takeWhile isDigit cs) + bracketCount ?rest" by simp
    also have "\<dots> = bracketCount cs"
      by (simp only: bracketCount_append [symmetric] takeWhile_dropWhile_id)
    finally have le: "bracketCount (tl ?rest) \<le> bracketCount cs" .
    have "length (ARRAY_DIMENSION_REGEX_matches (tl ?rest)) \<le> bracketCount (tl ?rest)"
      using 2(1) [OF refl] True by simp
    with le True show ?thesis by (simp add: Let_def bracketCount_def)
  next
    case False
    have "length (ARRAY_DIMENSION_REGEX_matches cs) \<le> bracketCount cs"
      using 2(2) [OF refl] False by simp
    with False show ?thesis by (auto simp: Let_def bracketCount_def)
  qed
qed

lemma ARRAY_TYPE_REGEX_match_parts:
  assumes "ARRAY_TYPE_REGEX_match ty = Some (group1, dimensionStr)"
  shows "ty = group1 @ dimensionStr \<and> dimensionStr \<noteq> [] \<and> hd dimensionStr = CHR ''[''"
proof -
  let ?p = "\<lambda>c. c \<noteq> CHR ''[''"
  from assms have ne: "ty \<noteq> []" and d: "dimensionStr = dropWhile ?p (tl ty)"
    and g: "group1 = hd ty # takeWhile ?p (tl ty)" and dne: "dimensionStr \<noteq> []"
    by (auto simp: ARRAY_TYPE_REGEX_match_def Let_def split: if_splits)
  have "ty = hd ty # (takeWhile ?p (tl ty) @ dropWhile ?p (tl ty))"
    using ne by simp
  then have "ty = group1 @ dimensionStr" using g d by simp
  moreover have "hd dimensionStr = CHR ''[''"
    using dne hd_dropWhile [of ?p "tl ty"] d by auto
  ultimately show ?thesis using dne by simp
qed

lemma parseType_isArray:
  assumes "isArray (parseType ty)"
  obtains group1 dimensionStr where
    "ARRAY_TYPE_REGEX_match ty = Some (group1, dimensionStr)"
    "baseType (parseType ty) = group1"
    "length (arrayDimensions (parseType ty)) = length (ARRAY_DIMENSION_REGEX_matches dimensionStr)"
proof (cases "ARRAY_TYPE_REGEX_match ty")
  case None
  with assms show ?thesis by (simp add: parseType_def Let_def split: if_splits)
next
  case (Some p)
  obtain g d where p: "p = (g, d)" by (cases p)
  have "baseType (parseType ty) = g"
    "length (arrayDimensions (parseType ty)) = length (ARRAY_DIMENSION_REGEX_matches d)"
    using Some p by (simp_all add: parseType_def Let_def)
  with Some p that show ?thesis by blast
qed

lemma innerType_bracketCount:
  assumes "isArray (parseType ty)"
  shows "bracketCount (innerTypeOf (parseType ty)) < bracketCount ty"
proof -
  from assms obtain g d where m: "ARRAY_TYPE_REGEX_match ty = Some (g, d)"
    and b: "baseType (parseType ty) = g"
    and l: "length (arrayDimensions (parseType ty)) = length (ARRAY_DIMENSION_REGEX_matches d)"
    by (rule parseType_isArray)
  from ARRAY_TYPE_REGEX_match_parts [OF m]
  have ty: "ty = g @ d" and dne: "d \<noteq> []" and hd: "hd d = CHR ''[''" by auto
  have pos: "0 < bracketCount d"
    using dne hd by (cases d) (simp_all add: bracketCount_def)
  have le: "length (arrayDimensions (parseType ty)) \<le> bracketCount d"
    using l ARRAY_DIMENSION_REGEX_matches_count [of d] by simp
  have bc: "bracketCount ty = bracketCount g + bracketCount d"
    by (subst ty) simp
  show ?thesis
  proof (cases "length (arrayDimensions (parseType ty)) > 1")
    case True
    then have "bracketCount (innerTypeOf (parseType ty))
        = bracketCount g + (length (arrayDimensions (parseType ty)) - 1)"
      by (simp add: innerTypeOf_def b bracketCount_renderDimensions)
    with True le bc show ?thesis by simp
  next
    case False
    then have "bracketCount (innerTypeOf (parseType ty)) = bracketCount g"
      by (simp add: innerTypeOf_def b)
    with pos bc show ?thesis by simp
  qed
qed

lemma components_size:
  "size_option (size_list size) (components component) < Suc (size component + k)"
  by (cases component) simp

text \<open>
  \<^verbatim>\<open>validateParameterType\<close>, \<^verbatim>\<open>validateArray\<close> and \<^verbatim>\<open>validateTuple\<close>. The value is a string
  (\<open>None\<close> stands for an absent value, \<^verbatim>\<open>undefined\<close> or \<^verbatim>\<open>null\<close>), so the branches of
  \<^verbatim>\<open>validateArray\<close> and \<^verbatim>\<open>validateTuple\<close> for a value that is no string are not reached.
  Each function returns \<open>Inr\<close> of its result or \<open>Inl\<close> of the exception it throws; the
  \<^verbatim>\<open>for\<close> loops are \<open>validateArray_loop\<close> and \<open>validateTuple_loop\<close>, which run inside the
  \<^verbatim>\<open>try\<close> blocks, and the \<^verbatim>\<open>catch\<close> clauses are the outer \<open>case\<close> of \<open>validateArray\<close> and
  \<open>validateTuple\<close>.
\<close>

function validateParameterType ::
    "string option \<Rightarrow> string \<Rightarrow> AbiParameter list option \<Rightarrow> exn + ParameterValidationResult"
  and validateArray ::
    "string \<Rightarrow> string \<Rightarrow> AbiParameter list option \<Rightarrow> number option \<Rightarrow> exn + ParameterValidationResult"
  and validateArray_loop ::
    "jsvalue list \<Rightarrow> nat \<Rightarrow> string \<Rightarrow> AbiParameter list option \<Rightarrow> ParameterValue list
      \<Rightarrow> exn + ParameterValidationResult"
  and validateTuple ::
    "string \<Rightarrow> AbiParameter list \<Rightarrow> exn + ParameterValidationResult"
  and validateTuple_loop ::
    "(string \<times> jsvalue) list \<Rightarrow> AbiParameter list \<Rightarrow> (string \<times> ParameterValue) list
      \<Rightarrow> exn + ParameterValidationResult"
where
  "validateParameterType None ty comps = Inr (Invalid ''Value is required'')"
| "validateParameterType (Some v) ty comps =
     (if isArray (parseType ty) then
        validateArray v (innerTypeOf (parseType ty)) comps
          (case arrayDimensions (parseType ty) of [] \<Rightarrow> None | d # ds \<Rightarrow> d)
      else if isTuple (parseType ty) then
        (case comps of
           None \<Rightarrow> Inr (Invalid ''Tuple components are required'')
         | Some cs \<Rightarrow>
             if cs = [] then Inr (Invalid ''Tuple components are required'')
             else validateTuple v cs)
      else if baseType (parseType ty) = ''address'' then Inr (validateAddress v)
      else if prefix ''uint'' (baseType (parseType ty)) then
        Inr (validateUint v (orDefault256 (parseInt (drop 4 (baseType (parseType ty))))))
      else if prefix ''int'' (baseType (parseType ty)) then
        Inr (validateInt v (orDefault256 (parseInt (drop 3 (baseType (parseType ty))))))
      else if baseType (parseType ty) = ''bool'' then Inr (validateBool v)
      else if baseType (parseType ty) = ''bytes'' then Inr (validateBytes v None)
      else if prefix ''bytes'' (baseType (parseType ty)) then
        Inr (validateBytes v (Some (parseInt (drop 5 (baseType (parseType ty))))))
      else if baseType (parseType ty) = ''string'' then Inr (validateString v)
      else Inr (Valid (JSString v)))"
| "validateArray v elementType comps expectedLength =
     (case
        (case JSON_parse v of
           Inl e \<Rightarrow> Inl e
         | Inr parsed \<Rightarrow>
             (case parsed of
                JSArray elements \<Rightarrow>
                  if lengthMismatch (length elements) expectedLength
                  then Inr (Invalid (''Array must have exactly ''
                         @ toString_number (the expectedLength) @ '' elements''))
                  else validateArray_loop elements 0 elementType comps []
              | _ \<Rightarrow> Inr (Invalid ''Must be a valid JSON array'')))
      of
        Inl e \<Rightarrow> Inr (Invalid ''Invalid JSON array format'')
      | Inr r \<Rightarrow> Inr r)"
| "validateArray_loop [] i elementType comps validatedElements =
     Inr (Valid (JSArray validatedElements))"
| "validateArray_loop (element # rest) i elementType comps validatedElements =
     (case elementText element of
        Inl e \<Rightarrow> Inl e
      | Inr elementValue \<Rightarrow>
          (case validateParameterType (Some elementValue) elementType comps of
             Inl e \<Rightarrow> Inl e
           | Inr (Invalid err) \<Rightarrow>
               Inr (Invalid (''Invalid element at index '' @ decimal i @ '': '' @ err))
           | Inr (Valid normalizedValue) \<Rightarrow>
               validateArray_loop rest (Suc i) elementType comps
                 (validatedElements @ [normalizedValue])))"
| "validateTuple v cs =
     (case
        (case JSON_parse v of
           Inl e \<Rightarrow> Inl e
         | Inr parsed \<Rightarrow>
             (case parsed of
                JSObject properties \<Rightarrow> validateTuple_loop properties cs []
              | _ \<Rightarrow> Inr (Invalid ''Must be a valid JSON object'')))
      of
        Inl e \<Rightarrow> Inr (Invalid ''Invalid JSON object format'')
      | Inr r \<Rightarrow> Inr r)"
| "validateTuple_loop parsed [] validatedTuple = Inr (Valid (JSObject validatedTuple))"
| "validateTuple_loop parsed (component # rest) validatedTuple =
     (case getProperty parsed (name component) of
        None \<Rightarrow> Inr (Invalid (''Missing required field: '' @ name component))
      | Some componentValue \<Rightarrow>
          (case elementText componentValue of
             Inl e \<Rightarrow> Inl e
           | Inr valueStr \<Rightarrow>
               (case validateParameterType (Some valueStr) (type component) (components component) of
                  Inl e \<Rightarrow> Inl e
                | Inr (Invalid err) \<Rightarrow>
                    Inr (Invalid (''Invalid field '' @ [CHR 0x22] @ name component @ [CHR 0x22]
                                  @ '': '' @ err))
                | Inr (Valid normalizedValue) \<Rightarrow>
                    validateTuple_loop parsed rest
                      (assignProperty validatedTuple (name component) normalizedValue))))"
  by pat_completeness auto
termination
  apply (relation "measures
     [case_sum
        (case_sum (\<lambda>(v, ty, comps). size_option (size_list size) comps)
                  (\<lambda>(v, ty, comps, el). size_option (size_list size) comps))
        (case_sum (\<lambda>(es, i, ty, comps, acc). size_option (size_list size) comps)
           (case_sum (\<lambda>(v, cs). size_list size cs)
                     (\<lambda>(parsed, cs, acc). size_list size cs))),
      case_sum
        (case_sum (\<lambda>(v, ty, comps). bracketCount ty)
                  (\<lambda>(v, ty, comps, el). bracketCount ty))
        (case_sum (\<lambda>(es, i, ty, comps, acc). bracketCount ty)
           (case_sum (\<lambda>(v, cs). 0) (\<lambda>(parsed, cs, acc). 0))),
      case_sum
        (case_sum (\<lambda>(v, ty, comps). 0) (\<lambda>(v, ty, comps, el). 2))
        (case_sum (\<lambda>(es, i, ty, comps, acc). 1)
           (case_sum (\<lambda>(v, cs). 2) (\<lambda>(parsed, cs, acc). 1))),
      case_sum
        (case_sum (\<lambda>(v, ty, comps). 0) (\<lambda>(v, ty, comps, el). 0))
        (case_sum (\<lambda>(es, i, ty, comps, acc). length es)
           (case_sum (\<lambda>(v, cs). 0) (\<lambda>(parsed, cs, acc). 0)))]")
  apply (auto simp: innerType_bracketCount components_size)
  done

declare validateParameterType.simps [simp del] validateArray.simps [simp del]
  validateTuple.simps [simp del]

section \<open>Normalizer and denormalizer\<close>

text \<open>
  \<^verbatim>\<open>tupleValue[comp.name]\<close> in \<^verbatim>\<open>normalizeParameterValue\<close>, where \<^verbatim>\<open>tupleValue\<close> is whatever
  \<^verbatim>\<open>JSON.parse\<close> returned, or the value itself when its \<^verbatim>\<open>typeof\<close> is \<^verbatim>\<open>object\<close>: reading a
  property of \<^verbatim>\<open>null\<close> throws a TypeError; an array and a string have their indices and
  \<^verbatim>\<open>length\<close>; every value inherits from its prototype and from \<^verbatim>\<open>Object.prototype\<close>.
  (\<^verbatim>\<open>normalizeParameterValue\<close> reads no property of a bigint or of a function.)
\<close>

definition propertyOf :: "jsvalue \<Rightarrow> string \<Rightarrow> exn + jsvalue option" where
  "propertyOf v k =
     (case v of
        JSNull \<Rightarrow> Inl TypeError
      | JSObject properties \<Rightarrow> Inr (getProperty properties k)
      | JSArray items \<Rightarrow>
          Inr (if isArrayIndex k \<and> digitsValue 10 k < length items
               then Some (items ! digitsValue 10 k)
               else if k = ''length'' then Some (JSNumber (decimal (length items)))
               else inheritedProperty ArrayPrototype k)
      | JSString s \<Rightarrow>
          Inr (if isArrayIndex k \<and> digitsValue 10 k < length s
               then Some (JSString [s ! digitsValue 10 k])
               else if k = ''length'' then Some (JSNumber (decimal (length s)))
               else inheritedProperty StringPrototype k)
      | JSNumber text \<Rightarrow> Inr (inheritedProperty NumberPrototype k)
      | JSBoolean b \<Rightarrow> Inr (inheritedProperty BooleanPrototype k)
      | JSPrototype p \<Rightarrow>
          Inr (if k = ''__proto__''
               then Some (if p = ObjectPrototype then JSNull else JSPrototype ObjectPrototype)
               else if k = ''length'' \<and> (p = ArrayPrototype \<or> p = StringPrototype)
               then Some (JSNumber ''0'')
               else inheritedProperty p k)
      | _ \<Rightarrow> Inr None)"

text \<open>\<^verbatim>\<open>typeof value === 'string' ? value : String(value)\<close>.\<close>

definition stringValueOf :: "jsvalue \<Rightarrow> exn + string" where
  "stringValueOf v = (case v of JSString s \<Rightarrow> Inr s | _ \<Rightarrow> String_of v)"

text \<open>The elements \<^verbatim>\<open>value.map\<close> runs over when \<^verbatim>\<open>value\<close> is an array; \<open>None\<close> when it is
  not one (\<^verbatim>\<open>undefined\<close> included).\<close>

definition arrayItems :: "jsvalue option \<Rightarrow> jsvalue list option" where
  "arrayItems v =
     (case v of
        Some (JSArray items) \<Rightarrow> Some items
      | Some (JSPrototype ArrayPrototype) \<Rightarrow> Some []
      | _ \<Rightarrow> None)"

text \<open>
  \<^verbatim>\<open>normalizeParameterValue(value, type, components)\<close>; \<open>normalize_items\<close> is
  \<^verbatim>\<open>arrayValue.map(...)\<close> and \<open>normalize_fields\<close> is \<^verbatim>\<open>components.map(...)\<close>. Calling
  \<^verbatim>\<open>map\<close> on a parsed value that is no array throws a TypeError.
\<close>

function normalizeParameterValue ::
    "jsvalue \<Rightarrow> string \<Rightarrow> AbiParameter list option \<Rightarrow> exn + ParameterValue"
  and normalize_items ::
    "jsvalue list \<Rightarrow> string \<Rightarrow> AbiParameter list option \<Rightarrow> exn + ParameterValue list"
  and normalize_fields ::
    "jsvalue \<Rightarrow> AbiParameter list \<Rightarrow> exn + ParameterValue list"
where
  "normalizeParameterValue v ty comps =
     (if isArray (parseType ty) then
        (case
           (case v of
              JSString s \<Rightarrow>
                (case JSON_parse s of
                   Inl e \<Rightarrow> Inl (Error (''Invalid JSON array for type '' @ ty))
                 | Inr parsed \<Rightarrow> Inr parsed)
            | _ \<Rightarrow>
                if Array_isArray v then Inr v
                else Inl (Error (''Expected array for type '' @ ty)))
         of
           Inl e \<Rightarrow> Inl e
         | Inr arrayValue \<Rightarrow>
             (case arrayItems (Some arrayValue) of
                None \<Rightarrow> Inl TypeError
              | Some items \<Rightarrow>
                  (case normalize_items items (innerTypeOf (parseType ty)) comps of
                     Inl e \<Rightarrow> Inl e
                   | Inr normalized \<Rightarrow> Inr (JSArray normalized))))
      else if isTuple (parseType ty) \<and> comps \<noteq> None then
        (case
           (case v of
              JSString s \<Rightarrow>
                (case JSON_parse s of
                   Inl e \<Rightarrow> Inl (Error ''Invalid JSON object for tuple'')
                 | Inr parsed \<Rightarrow> Inr parsed)
            | _ \<Rightarrow>
                if typeofObject v \<and> v \<noteq> JSNull \<and> \<not> Array_isArray v then Inr v
                else Inl (Error ''Expected object for tuple''))
         of
           Inl e \<Rightarrow> Inl e
         | Inr tupleValue \<Rightarrow>
             (case normalize_fields tupleValue (the comps) of
                Inl e \<Rightarrow> Inl e
              | Inr normalized \<Rightarrow> Inr (JSArray normalized)))
      else
        (case stringValueOf v of
           Inl e \<Rightarrow> Inl e
         | Inr stringValue \<Rightarrow>
             if baseType (parseType ty) = ''address'' then Inr (JSString (toLowerCase stringValue))
             else if prefix ''uint'' (baseType (parseType ty)) \<or> prefix ''int'' (baseType (parseType ty))
             then Inr (JSString stringValue)
             else if baseType (parseType ty) = ''bool''
             then Inr (JSBoolean (toLowerCase stringValue = ''true''))
             else if baseType (parseType ty) = ''bytes'' \<or> prefix ''bytes'' (baseType (parseType ty))
             then Inr (JSString stringValue)
             else if baseType (parseType ty) = ''string'' then Inr (JSString stringValue)
             else Inr (JSString stringValue)))"
| "normalize_items [] innerType comps = Inr []"
| "normalize_items (item # rest) innerType comps =
     (case elementText item of
        Inl e \<Rightarrow> Inl e
      | Inr itemValue \<Rightarrow>
          (case normalizeParameterValue (JSString itemValue) innerType comps of
             Inl e \<Rightarrow> Inl e
           | Inr normalized \<Rightarrow>
               (case normalize_items rest innerType comps of
                  Inl e \<Rightarrow> Inl e
                | Inr others \<Rightarrow> Inr (normalized # others))))"
| "normalize_fields tupleValue [] = Inr []"
| "normalize_fields tupleValue (component # rest) =
     (case propertyOf tupleValue (name component) of
        Inl e \<Rightarrow> Inl e
      | Inr None \<Rightarrow> Inl (Error (''Missing tuple field: '' @ name component))
      | Inr (Some componentValue) \<Rightarrow>
          (case elementText componentValue of
             Inl e \<Rightarrow> Inl e
           | Inr componentValueStr \<Rightarrow>
               (case normalizeParameterValue (JSString componentValueStr) (type component) (components component) of
                  Inl e \<Rightarrow> Inl e
                | Inr normalized \<Rightarrow>
                    (case normalize_fields tupleValue rest of
                       Inl e \<Rightarrow> Inl e
                     | Inr others \<Rightarrow> Inr (normalized # others)))))"
  by pat_completeness auto
termination
  apply (relation "measures
     [case_sum (\<lambda>(v, ty, comps). size_option (size_list size) comps)
        (case_sum (\<lambda>(items, ty, comps). size_option (size_list size) comps)
                  (\<lambda>(tupleValue, cs). size_list size cs)),
      case_sum (\<lambda>(v, ty, comps). bracketCount ty)
        (case_sum (\<lambda>(items, ty, comps). bracketCount ty) (\<lambda>(tupleValue, cs). 0)),
      case_sum (\<lambda>(v, ty, comps). 0)
        (case_sum (\<lambda>(items, ty, comps). 1) (\<lambda>(tupleValue, cs). 1)),
      case_sum (\<lambda>(v, ty, comps). 0)
        (case_sum (\<lambda>(items, ty, comps). length items) (\<lambda>(tupleValue, cs). 0))]")
  apply (auto simp: innerType_bracketCount components_size)
  done

declare normalizeParameterValue.simps [simp del]

text \<open>
  \<^verbatim>\<open>denormalizeParameterValue(value, type, components)\<close>; \<open>None\<close> is \<^verbatim>\<open>undefined\<close>.
  \<open>denormalize_items\<close> is \<^verbatim>\<open>value.map(...)\<close>, and \<open>denormalize_fields\<close> is the loop over the
  components, which reads \<^verbatim>\<open>value[i]\<close> (\<^verbatim>\<open>undefined\<close> past the end of the array) and
  assigns \<^verbatim>\<open>result[comp.name]\<close>.
\<close>

definition elementAt :: "jsvalue list \<Rightarrow> nat \<Rightarrow> jsvalue option" where
  "elementAt vs i = (if i < length vs then Some (vs ! i) else None)"

function denormalizeParameterValue ::
    "jsvalue option \<Rightarrow> string \<Rightarrow> AbiParameter list option \<Rightarrow> exn + string"
  and denormalize_items ::
    "jsvalue list \<Rightarrow> string \<Rightarrow> AbiParameter list option \<Rightarrow> exn + string list"
  and denormalize_fields ::
    "jsvalue list \<Rightarrow> nat \<Rightarrow> AbiParameter list \<Rightarrow> (string \<times> jsvalue) list \<Rightarrow> exn + (string \<times> jsvalue) list"
where
  "denormalizeParameterValue v ty comps =
     (if isArray (parseType ty) \<and> arrayItems v \<noteq> None then
        (case denormalize_items (the (arrayItems v)) (innerTypeOf (parseType ty)) comps of
           Inl e \<Rightarrow> Inl e
         | Inr denormalized \<Rightarrow> stringifyText (JSArray (map JSString denormalized)))
      else if isTuple (parseType ty) \<and> comps \<noteq> None \<and> arrayItems v \<noteq> None then
        (case denormalize_fields (the (arrayItems v)) 0 (the comps) [] of
           Inl e \<Rightarrow> Inl e
         | Inr result \<Rightarrow> stringifyText (JSObject result))
      else
        (case v of
           Some (JSBigInt n) \<Rightarrow> Inr (toString_int n)
         | Some (JSBoolean b) \<Rightarrow> Inr (if b then ''true'' else ''false'')
         | Some JSNull \<Rightarrow> Inr []
         | None \<Rightarrow> Inr []
         | Some other \<Rightarrow> String_of other))"
| "denormalize_items [] innerType comps = Inr []"
| "denormalize_items (item # rest) innerType comps =
     (case denormalizeParameterValue (Some item) innerType comps of
        Inl e \<Rightarrow> Inl e
      | Inr text \<Rightarrow>
          (case denormalize_items rest innerType comps of
             Inl e \<Rightarrow> Inl e
           | Inr others \<Rightarrow> Inr (text # others)))"
| "denormalize_fields items i [] result = Inr result"
| "denormalize_fields items i (component # rest) result =
     (case denormalizeParameterValue (elementAt items i) (type component) (components component) of
        Inl e \<Rightarrow> Inl e
      | Inr text \<Rightarrow> denormalize_fields items (Suc i) rest (assignProperty result (name component) (JSString text)))"
  by pat_completeness auto
termination
  apply (relation "measures
     [case_sum (\<lambda>(v, ty, comps). size_option (size_list size) comps)
        (case_sum (\<lambda>(items, ty, comps). size_option (size_list size) comps)
                  (\<lambda>(items, i, cs, result). size_list size cs)),
      case_sum (\<lambda>(v, ty, comps). bracketCount ty)
        (case_sum (\<lambda>(items, ty, comps). bracketCount ty) (\<lambda>(items, i, cs, result). 0)),
      case_sum (\<lambda>(v, ty, comps). 0)
        (case_sum (\<lambda>(items, ty, comps). 1) (\<lambda>(items, i, cs, result). 1)),
      case_sum (\<lambda>(v, ty, comps). 0)
        (case_sum (\<lambda>(items, ty, comps). length items) (\<lambda>(items, i, cs, result). 0))]")
  apply (auto simp: innerType_bracketCount components_size)
  done

declare denormalizeParameterValue.simps [simp del]

section \<open>Action assembly\<close>


datatype ActionBuilderErrorCode =
    INVALID_ADDRESS | INVALID_API_KEY | CONTRACT_NOT_FOUND | ABI_FETCH_FAILED
  | INVALID_PARAMETER | ENCODING_FAILED | DECODING_FAILED | FUNCTION_NOT_FOUND
  | NETWORK_ERROR | RPC_ERROR















section \<open>Properties of the texts of values\<close>

text \<open>
  \<^verbatim>\<open>JSON.stringify\<close> is \<^verbatim>\<open>undefined\<close> for a function only, so a value whose \<^verbatim>\<open>typeof\<close> is
  \<^verbatim>\<open>object\<close>, an array and an object have a text (or throw): \<open>stringifyText\<close> never reads an
  absent text.
\<close>

lemma JSON_stringify_undefined: "(JSON_stringify v = Inr None) = (\<exists>f. v = JSFunction f)"
  by (cases v) (auto split: sum.splits)

lemma stringifyText_defined:
  "typeofObject v \<Longrightarrow> JSON_stringify v = Inr r \<Longrightarrow> \<exists>t. r = Some t \<and> stringifyText v = Inr t"
  by (cases r) (auto simp: stringifyText_def JSON_stringify_undefined typeofObject_def)

lemma elementText_object:
  "typeofObject v \<Longrightarrow> (elementText v = Inr t) = (JSON_stringify v = Inr (Some t))"
  using stringifyText_defined [of v]
  by (cases "JSON_stringify v") (auto simp: elementText_def stringifyText_def)

section \<open>Properties of the scalar validators\<close>

subsection \<open>Addresses\<close>

lemma toLowerCase_hex: "isHexDigit c \<Longrightarrow> isLowerHexDigit (toLowerCase_char c)"
  unfolding isHexDigit_def
  apply (simp only: list.set insert_iff empty_iff)
  apply (elim disjE FalseE; simp add: isLowerHexDigit_def toLowerCase_char_def isUpperCase_def)
  done

lemma toLowerCase_lowerhex: "isLowerHexDigit c \<Longrightarrow> toLowerCase_char c = c"
  unfolding isLowerHexDigit_def
  apply (simp only: list.set insert_iff empty_iff)
  apply (elim disjE FalseE; simp add: toLowerCase_char_def isUpperCase_def)
  done

lemma toLowerCase_hex_string:
  "list_all isHexDigit hs \<Longrightarrow> list_all isLowerHexDigit (toLowerCase hs)"
  by (induction hs) (auto simp: toLowerCase_def toLowerCase_hex)

lemma toLowerCase_lowerhex_string:
  "list_all isLowerHexDigit hs \<Longrightarrow> toLowerCase hs = hs"
  by (induction hs) (auto simp: toLowerCase_def toLowerCase_lowerhex)

lemma toLowerCase_0x [simp]:
  "toLowerCase (CHR ''0'' # CHR ''x'' # hs) = CHR ''0'' # CHR ''x'' # toLowerCase hs"
  by (simp add: toLowerCase_def toLowerCase_char_def isUpperCase_def)

lemma validateAddress_lowerhex:
  assumes "length hs = 40" "list_all isLowerHexDigit hs"
  shows "validateAddress (''0x'' @ hs) = Valid (JSString (''0x'' @ hs))"
proof -
  have "toLowerCase (''0x'' @ hs) = ''0x'' @ hs"
    using assms(2) by (simp add: toLowerCase_lowerhex_string)
  then show ?thesis
    using assms by (simp add: validateAddress_def ADDRESS_REGEX_test_def Let_def)
qed

text \<open>
  C7. For every string made of \<^verbatim>\<open>0x\<close> and 40 hex digits in any letter case,
  \<open>validateAddress\<close> succeeds and its normalized value is the lower-case form of the
  string; validating that normalized form again succeeds and returns the same value.
\<close>

theorem validateAddress_idempotent:
  assumes "length hs = 40" and "list_all isHexDigit hs"
  shows "validateAddress (''0x'' @ hs) = Valid (JSString (''0x'' @ toLowerCase hs))
       \<and> toLowerCase (''0x'' @ hs) = ''0x'' @ toLowerCase hs
       \<and> validateAddress (''0x'' @ toLowerCase hs) = Valid (JSString (''0x'' @ toLowerCase hs))"
proof -
  have low: "list_all isLowerHexDigit (toLowerCase hs)"
    using assms(2) by (rule toLowerCase_hex_string)
  have len: "length (toLowerCase hs) = 40"
    using assms(1) by (simp add: toLowerCase_def)
  have "validateAddress (''0x'' @ hs) = Valid (JSString (''0x'' @ toLowerCase hs))"
    using low len by (simp add: validateAddress_def ADDRESS_REGEX_test_def Let_def)
  moreover have "validateAddress (''0x'' @ toLowerCase hs) = Valid (JSString (''0x'' @ toLowerCase hs))"
    using len low by (rule validateAddress_lowerhex)
  ultimately show ?thesis by simp
qed

theorem validateAddress_idempotent_witness:
  "validateAddress ''0xAbCdEf1234567890123456789012345678901234''
     = Valid (JSString ''0xabcdef1234567890123456789012345678901234'')
   \<and> validateAddress ''0xabcdef1234567890123456789012345678901234''
     = Valid (JSString ''0xabcdef1234567890123456789012345678901234'')"
proof -
  have h1: "length ''AbCdEf1234567890123456789012345678901234'' = 40" by simp
  have h2: "list_all isHexDigit ''AbCdEf1234567890123456789012345678901234''" by code_simp
  have h3: "toLowerCase ''AbCdEf1234567890123456789012345678901234''
            = ''abcdef1234567890123456789012345678901234''" by code_simp
  note t = validateAddress_idempotent [OF h1 h2, unfolded h3 append.simps]
  from t show ?thesis by blast
qed

subsection \<open>Integers\<close>

lemma digitValue_digitChar: "d < 10 \<Longrightarrow> digitValue (digitChar d) = d"
proof -
  assume "d < 10"
  then have "d \<in> {0,1,2,3,4,5,6,7,8,9}" by auto
  then show ?thesis by (auto simp: digitChar_def digitValue_def)
qed

lemma isDigit_radix10: "isDigit c \<Longrightarrow> isRadixDigit 10 c"
  unfolding isDigit_def
  apply (simp only: list.set insert_iff empty_iff)
  apply (elim disjE FalseE; simp add: isRadixDigit_def digitValue_def)
  done

lemma digitsValue_snoc: "digitsValue r (ds @ [c]) = digitsValue r ds * r + digitValue c"
  by (simp add: digitsValue_def)

lemma digitsValue_decimal: "digitsValue 10 (decimal n) = n"
proof (induction n rule: decimal.induct)
  case (1 n)
  show ?case
  proof (cases "n < 10")
    case True
    then show ?thesis
      by (subst decimal.simps) (simp add: digitsValue_def digitValue_digitChar)
  next
    case False
    with 1 have "digitsValue 10 (decimal (n div 10)) = n div 10" by simp
    with False show ?thesis
      by (subst decimal.simps) (simp add: digitsValue_snoc digitValue_digitChar)
  qed
qed

lemma radixLiteral_decimal: "radixLiteral 10 (decimal n) = Some (int n)"
proof -
  have "list_all (isRadixDigit 10) (decimal n)"
    using decimal_digits [of n] by (induction "decimal n") (auto simp: list_all_iff isDigit_radix10)
  then show ?thesis
    by (simp add: radixLiteral_def decimal_nonempty digitsValue_decimal)
qed

lemma trim_id:
  assumes "s \<noteq> []" "\<not> isWhiteSpace (hd s)" "\<not> isWhiteSpace (last s)"
  shows "trim s = s"
proof -
  from assms have a: "dropWhile isWhiteSpace s = s"
    by (cases s) auto
  from assms have "dropWhile isWhiteSpace (rev s) = rev s"
    by (cases "rev s") (auto simp: hd_rev[symmetric])
  with a show ?thesis by (simp add: trim_def)
qed

lemma trim_changes:
  assumes "s \<noteq> []" "isWhiteSpace (hd s) \<or> isWhiteSpace (last s)"
  shows "trim s \<noteq> s"
proof
  assume eq: "trim s = s"
  from assms(2) show False
  proof
    assume h: "isWhiteSpace (hd s)"
    from assms(1) obtain c cs where s: "s = c # cs" by (cases s) auto
    have "length (trim s) \<le> length (dropWhile isWhiteSpace s)"
    proof -
      have "length (trim s) = length (dropWhile isWhiteSpace (rev (dropWhile isWhiteSpace s)))"
        by (simp add: trim_def)
      also have "\<dots> \<le> length (rev (dropWhile isWhiteSpace s))"
        by (rule length_dropWhile_le)
      finally show ?thesis by simp
    qed
    also have "\<dots> \<le> length cs" using h s by (simp add: length_dropWhile_le)
    finally show False using eq s by simp
  next
    assume h: "isWhiteSpace (last s)"
    let ?t = "dropWhile isWhiteSpace s"
    show False
    proof (cases "?t = []")
      case True
      have "trim s = []" unfolding trim_def True by simp
      with eq assms(1) show False by simp
    next
      case False
      have suf: "suffix ?t s" by (rule suffix_dropWhile)
      then obtain zs where z: "s = zs @ ?t" by (auto simp: suffix_def)
      have "last ?t = last s" using z False by (metis last_appendR)
      with h have "isWhiteSpace (hd (rev ?t))" using False by (simp add: hd_rev)
      moreover from False obtain c cs where r: "rev ?t = c # cs" by (cases "rev ?t") auto
      ultimately have "length (dropWhile isWhiteSpace (rev ?t)) \<le> length cs"
        by (simp add: length_dropWhile_le)
      then have "length (trim s) < length ?t"
      proof -
        have "length (rev ?t) = Suc (length cs)" using r by simp
        then have "length ?t = Suc (length cs)" by simp
        moreover have "length (trim s) = length (dropWhile isWhiteSpace (rev ?t))"
          by (simp add: trim_def)
        ultimately show ?thesis
          using \<open>length (dropWhile isWhiteSpace (rev ?t)) \<le> length cs\<close> by linarith
      qed
      moreover have "length ?t \<le> length s" by (rule length_dropWhile_le)
      ultimately show False using eq by simp
    qed
  qed
qed

lemma toString_int_shape:
  "toString_int N \<noteq> [] \<and> trim (toString_int N) = toString_int N"
proof -
  have d: "\<And>n. \<not> isWhiteSpace (last (decimal n)) \<and> \<not> isWhiteSpace (hd (decimal n))"
  proof -
    fix n
    have "last (decimal n) \<in> set (decimal n)" "hd (decimal n) \<in> set (decimal n)"
      using decimal_nonempty by auto
    then show "\<not> isWhiteSpace (last (decimal n)) \<and> \<not> isWhiteSpace (hd (decimal n))"
      using decimal_digits [of n] isDigit_not_special by (auto simp: list_all_iff)
  qed
  have m: "\<not> isWhiteSpace (CHR ''-'')" by (simp add: isWhiteSpace_def)
  show ?thesis
  proof (cases "N < 0")
    case True
    then show ?thesis
      using d [of "nat (- N)"] m decimal_nonempty [of "nat (- N)"]
      by (auto simp: toString_int_def intro!: trim_id)
  next
    case False
    then show ?thesis
      using d [of "nat N"] decimal_nonempty [of "nat N"]
      by (auto simp: toString_int_def intro!: trim_id)
  qed
qed

lemma StringToBigInt_decimal: "StringToBigInt (decimal n) = Some (int n)"
proof -
  have t: "trim (decimal n) = decimal n"
    using toString_int_shape [of "int n"] by (simp add: toString_int_def)
  have dg: "list_all isDigit (decimal n)" by (rule decimal_digits)
  have ne: "decimal n \<noteq> []" by (rule decimal_nonempty)
  have p: "take 2 (decimal n) \<notin> {''0x'', ''0X'', ''0o'', ''0O'', ''0b'', ''0B''}"
  proof (cases "decimal n")
    case Nil
    then show ?thesis by simp
  next
    case (Cons a as)
    show ?thesis
    proof (cases as)
      case Nil
      with Cons show ?thesis by simp
    next
      case (Cons b bs)
      with dg \<open>decimal n = a # as\<close> have "isDigit b" by simp
      from isDigit_not_special [OF this] show ?thesis
        using Cons \<open>decimal n = a # as\<close> by auto
    qed
  qed
  have h: "hd (decimal n) \<noteq> CHR ''+'' \<and> hd (decimal n) \<noteq> CHR ''-''"
  proof -
    have "isDigit (hd (decimal n))" using dg ne by (cases "decimal n") auto
    from isDigit_not_special [OF this] show ?thesis by auto
  qed
  show ?thesis
    using t ne p h by (simp add: StringToBigInt_def Let_def radixLiteral_decimal)
qed

lemma BigInt_toString_int: "BigInt (toString_int N) = Inr N"
proof (cases "N < 0")
  case True
  let ?s = "CHR ''-'' # decimal (nat (- N))"
  have t: "trim ?s = ?s"
    using toString_int_shape [of N] True by (simp add: toString_int_def)
  have "StringToBigInt ?s = Some N"
    using True by (simp add: StringToBigInt_def Let_def t radixLiteral_decimal)
  with True show ?thesis by (simp add: BigInt_def toString_int_def)
next
  case False
  then show ?thesis
    by (simp add: BigInt_def toString_int_def StringToBigInt_decimal)
qed

lemma validateUint_decimal:
  assumes "0 \<le> bits"
  shows "validateUint (toString_int N) bits =
     (if N < 0 then Invalid ''Must be a non-negative number''
      else if N > 2 ^ nat bits - 1 then Invalid (''Value exceeds uint'' @ toString_int bits @ '' max'')
      else Valid (JSBigInt N))"
  using assms toString_int_shape [of N]
  by (simp add: validateUint_def validateUint_try_def BigInt_toString_int BigInt_pow2_def Let_def)

lemma validateInt_decimal:
  assumes "1 \<le> bits"
  shows "validateInt (toString_int N) bits =
     (if N > 2 ^ nat (bits - 1) - 1 \<or> N < - (2 ^ nat (bits - 1))
      then Invalid (''Value out of range for int'' @ toString_int bits)
      else Valid (JSBigInt N))"
  using assms toString_int_shape [of N]
  by (simp add: validateInt_def validateInt_try_def BigInt_toString_int BigInt_pow2_def Let_def)

text \<open>
  C3. For every bit width \<open>bits\<close> and every integer \<open>N\<close> from 0 to \<open>2 ^ bits - 1\<close>,
  \<open>validateUint\<close> accepts the decimal text of \<open>N\<close>, and it rejects the texts of
  \<open>2 ^ bits\<close> and of -1; for every integer \<open>M\<close> from \<open>- 2 ^ (bits - 1)\<close> to
  \<open>2 ^ (bits - 1) - 1\<close>, \<open>validateInt\<close> accepts the decimal text of \<open>M\<close>, and it rejects
  the text of the integer one past each bound; both reject a text that starts or ends
  with white space.
\<close>

theorem integer_range_checking:
  "(0 \<le> bits \<and> 0 \<le> N \<and> N \<le> 2 ^ nat bits - 1
       \<longrightarrow> validateUint (toString_int N) bits = Valid (JSBigInt N))
   \<and> (0 \<le> bits \<longrightarrow>
         validateUint (toString_int (2 ^ nat bits)) bits
           = Invalid (''Value exceeds uint'' @ toString_int bits @ '' max'')
       \<and> validateUint (toString_int (- 1)) bits = Invalid ''Must be a non-negative number'')
   \<and> (1 \<le> bits \<and> - (2 ^ nat (bits - 1)) \<le> M \<and> M \<le> 2 ^ nat (bits - 1) - 1
       \<longrightarrow> validateInt (toString_int M) bits = Valid (JSBigInt M))
   \<and> (1 \<le> bits \<longrightarrow>
         validateInt (toString_int (2 ^ nat (bits - 1))) bits
           = Invalid (''Value out of range for int'' @ toString_int bits)
       \<and> validateInt (toString_int (- (2 ^ nat (bits - 1)) - 1)) bits
           = Invalid (''Value out of range for int'' @ toString_int bits))
   \<and> (s \<noteq> [] \<and> (isWhiteSpace (hd s) \<or> isWhiteSpace (last s))
       \<longrightarrow> validateUint s bits = Invalid ''Invalid number format (no spaces allowed)''
         \<and> validateInt s bits = Invalid ''Invalid number format (no spaces allowed)'')"
proof (intro conjI impI)
  assume "0 \<le> bits \<and> 0 \<le> N \<and> N \<le> 2 ^ nat bits - 1"
  then show "validateUint (toString_int N) bits = Valid (JSBigInt N)"
    by (simp add: validateUint_decimal)
next
  assume "0 \<le> bits"
  then show "validateUint (toString_int (2 ^ nat bits)) bits
           = Invalid (''Value exceeds uint'' @ toString_int bits @ '' max'')"
    by (simp add: validateUint_decimal)
next
  assume "0 \<le> bits"
  then show "validateUint (toString_int (- 1)) bits = Invalid ''Must be a non-negative number''"
    by (simp add: validateUint_decimal)
next
  assume "1 \<le> bits \<and> - (2 ^ nat (bits - 1)) \<le> M \<and> M \<le> 2 ^ nat (bits - 1) - 1"
  then show "validateInt (toString_int M) bits = Valid (JSBigInt M)"
    by (auto simp add: validateInt_decimal)
next
  assume "1 \<le> bits"
  then show "validateInt (toString_int (2 ^ nat (bits - 1))) bits
           = Invalid (''Value out of range for int'' @ toString_int bits)"
    by (simp add: validateInt_decimal)
next
  assume "1 \<le> bits"
  then show "validateInt (toString_int (- (2 ^ nat (bits - 1)) - 1)) bits
           = Invalid (''Value out of range for int'' @ toString_int bits)"
    by (simp add: validateInt_decimal)
next
  assume a: "s \<noteq> [] \<and> (isWhiteSpace (hd s) \<or> isWhiteSpace (last s))"
  then show "validateUint s bits = Invalid ''Invalid number format (no spaces allowed)''"
    using trim_changes [of s] by (auto simp: validateUint_def)
  from a show "validateInt s bits = Invalid ''Invalid number format (no spaces allowed)''"
    using trim_changes [of s] by (auto simp: validateInt_def)
qed

theorem integer_range_checking_witness:
  "validateUint ''255'' 8 = Valid (JSBigInt 255)
   \<and> validateUint ''256'' 8 = Invalid ''Value exceeds uint8 max''
   \<and> validateUint ''-1'' 8 = Invalid ''Must be a non-negative number''
   \<and> validateInt ''-128'' 8 = Valid (JSBigInt (- 128))
   \<and> validateInt ''128'' 8 = Invalid ''Value out of range for int8''
   \<and> validateInt ''-129'' 8 = Invalid ''Value out of range for int8''
   \<and> validateUint '' 123'' 8 = Invalid ''Invalid number format (no spaces allowed)''
   \<and> validateInt '' 123'' 8 = Invalid ''Invalid number format (no spaces allowed)''"
proof -
  have e: "toString_int 255 = ''255''" "toString_int 256 = ''256''" "toString_int (- 1) = ''-1''"
    "toString_int (- 128) = ''-128''" "toString_int 128 = ''128''" "toString_int (- 129) = ''-129''"
    "toString_int 8 = ''8''"
    by code_simp+
  have w: "isWhiteSpace (hd '' 123'')" by (simp add: isWhiteSpace_def)
  from integer_range_checking [of 8 255 "- 128" "'' 123''"] w
  show ?thesis by (simp add: e)
qed

subsection \<open>Bytes\<close>

text \<open>
  C6, as stated, fails: a request for 33 bytes with a value of one byte is rejected with
  the length-mismatch error, not with "Fixed bytes cannot exceed 32".
\<close>

theorem validateBytes_counterexample:
  "validateBytes ''0x12'' (Some (Number 33)) = Invalid ''Must be exactly 33 bytes''
   \<and> validateBytes ''0x12'' (Some (Number 33)) \<noteq> Invalid ''Fixed bytes cannot exceed 32''"
proof -
  have "toString_int 33 = ''33''" by code_simp
  then have "validateBytes ''0x12'' (Some (Number 33)) = Invalid ''Must be exactly 33 bytes''"
    by (simp add: validateBytes_def HEX_STRING_REGEX_test_def isHexDigit_def strictNotEqual_def
        toString_number_def)
  then show ?thesis by simp
qed

lemma validateBytes_fixed_cases:
  "validateBytes value (Some (Number N)) =
     (if value = [] then Invalid ''Bytes value is required''
      else if take 2 value \<noteq> ''0x'' then Invalid ''Must start with 0x''
      else if \<not> HEX_STRING_REGEX_test value then Invalid ''Invalid hex string''
      else if (of_nat (length value) - 2) / (2 :: rat) \<noteq> of_int N
      then Invalid (''Must be exactly '' @ toString_int N @ '' bytes'')
      else if 32 < N then Invalid ''Fixed bytes cannot exceed 32''
      else Valid (JSString value))"
  by (simp add: validateBytes_def strictNotEqual_def toString_number_def Let_def)

text \<open>
  C6, amended. With a fixed length \<open>N\<close>, \<open>validateBytes\<close> rejects every value whose
  decoded byte length differs from \<open>N\<close>, and rejects every request with \<open>N > 32\<close>. The
  checks run in the order of the source: an empty value, a value that does not start with
  \<^verbatim>\<open>0x\<close> and a value with a character that is no hex digit get the errors of the format
  checks; a well-formed hex string gets "Must be exactly N bytes" when its length differs
  from \<open>N\<close>; so the error is "Fixed bytes cannot exceed 32" exactly when the value is a
  well-formed hex string of \<open>N\<close> bytes and \<open>N > 32\<close>. A well-formed hex string of exactly
  \<open>N \<le> 32\<close> bytes is accepted unchanged.
\<close>

theorem validateBytes_fixed:
  "((of_nat (length value) - 2) / (2 :: rat) \<noteq> of_int N
       \<longrightarrow> (\<exists>e. validateBytes value (Some (Number N)) = Invalid e))
   \<and> (32 < N \<longrightarrow> (\<exists>e. validateBytes value (Some (Number N)) = Invalid e))
   \<and> (32 < N \<and> HEX_STRING_REGEX_test value \<and> (of_nat (length value) - 2) / (2 :: rat) = of_int N
       \<longrightarrow> validateBytes value (Some (Number N)) = Invalid ''Fixed bytes cannot exceed 32'')
   \<and> (HEX_STRING_REGEX_test value \<and> (of_nat (length value) - 2) / (2 :: rat) \<noteq> of_int N
       \<longrightarrow> validateBytes value (Some (Number N))
             = Invalid (''Must be exactly '' @ toString_int N @ '' bytes''))
   \<and> (HEX_STRING_REGEX_test value \<and> (of_nat (length value) - 2) / (2 :: rat) = of_int N \<and> N \<le> 32
       \<longrightarrow> validateBytes value (Some (Number N)) = Valid (JSString value))
   \<and> (validateBytes value (Some (Number N)) = Invalid ''Fixed bytes cannot exceed 32'')
       = (HEX_STRING_REGEX_test value \<and> (of_nat (length value) - 2) / (2 :: rat) = of_int N
          \<and> 32 < N)
   \<and> (value = [] \<longrightarrow> validateBytes value (Some (Number N)) = Invalid ''Bytes value is required'')
   \<and> (value \<noteq> [] \<and> take 2 value \<noteq> ''0x''
       \<longrightarrow> validateBytes value (Some (Number N)) = Invalid ''Must start with 0x'')
   \<and> (take 2 value = ''0x'' \<and> \<not> HEX_STRING_REGEX_test value
       \<longrightarrow> validateBytes value (Some (Number N)) = Invalid ''Invalid hex string'')"
proof -
  have hex: "HEX_STRING_REGEX_test value \<Longrightarrow> value \<noteq> [] \<and> take 2 value = ''0x''"
    by (auto simp: HEX_STRING_REGEX_test_def)
  have ne: "take 2 value = ''0x'' \<Longrightarrow> value \<noteq> []"
    by auto
  show ?thesis
    using hex ne by (auto simp: validateBytes_fixed_cases)
qed

theorem validateBytes_fixed_witness:
  "validateBytes ''0x1234'' (Some (Number 1)) = Invalid ''Must be exactly 1 bytes''
   \<and> validateBytes ''0x12'' (Some (Number 1)) = Valid (JSString ''0x12'')
   \<and> validateBytes (''0x'' @ replicate 66 (CHR ''a'')) (Some (Number 33))
       = Invalid ''Fixed bytes cannot exceed 32''
   \<and> (\<exists>e. validateBytes ''0x12'' (Some (Number 33)) = Invalid e)
   \<and> validateBytes ''zz'' (Some (Number 33)) = Invalid ''Must start with 0x''
   \<and> validateBytes ''0xzz'' (Some (Number 33)) = Invalid ''Invalid hex string''
   \<and> validateBytes [] (Some (Number 33)) = Invalid ''Bytes value is required''
   \<and> validateBytes ''zz'' (Some (Number 33)) \<noteq> Invalid ''Fixed bytes cannot exceed 32''"
proof -
  have e: "toString_int 1 = ''1''" by code_simp
  have h1: "HEX_STRING_REGEX_test ''0x1234''" "HEX_STRING_REGEX_test ''0x12''"
    by (simp_all add: HEX_STRING_REGEX_test_def isHexDigit_def)
  have h2: "HEX_STRING_REGEX_test (''0x'' @ replicate 66 (CHR ''a''))"
    by (simp add: HEX_STRING_REGEX_test_def isHexDigit_def list_all_iff)
  have h3: "\<not> HEX_STRING_REGEX_test ''0xzz''" "\<not> HEX_STRING_REGEX_test ''zz''"
    by (simp_all add: HEX_STRING_REGEX_test_def isHexDigit_def)
  from validateBytes_fixed [of "''0x1234''" 1] h1
  have a: "validateBytes ''0x1234'' (Some (Number 1)) = Invalid ''Must be exactly 1 bytes''"
    by (simp add: e)
  from validateBytes_fixed [of "''0x12''" 1] h1
  have b: "validateBytes ''0x12'' (Some (Number 1)) = Valid (JSString ''0x12'')"
    by simp
  from validateBytes_fixed [of "''0x'' @ replicate 66 (CHR ''a'')" 33] h2
  have c: "validateBytes (''0x'' @ replicate 66 (CHR ''a'')) (Some (Number 33))
       = Invalid ''Fixed bytes cannot exceed 32''"
    by simp
  from validateBytes_fixed [of "''0x12''" 33]
  have d: "\<exists>e. validateBytes ''0x12'' (Some (Number 33)) = Invalid e"
    by simp
  from validateBytes_fixed [of "''zz''" 33]
  have f: "validateBytes ''zz'' (Some (Number 33)) = Invalid ''Must start with 0x''"
    by simp
  from validateBytes_fixed [of "''0xzz''" 33] h3
  have g: "validateBytes ''0xzz'' (Some (Number 33)) = Invalid ''Invalid hex string''"
    by simp
  from validateBytes_fixed [of "[]" 33]
  have h: "validateBytes [] (Some (Number 33)) = Invalid ''Bytes value is required''"
    by simp
  from validateBytes_fixed [of "''zz''" 33] h3
  have i: "validateBytes ''zz'' (Some (Number 33)) \<noteq> Invalid ''Fixed bytes cannot exceed 32''"
    by blast
  from a b c d f g h i show ?thesis by blast
qed

section \<open>Properties of the composite validators\<close>

subsection \<open>Totality\<close>

lemma validateArray_returns: "\<exists>r. validateArray v elementType comps expectedLength = Inr r"
  by (simp add: validateArray.simps split: sum.splits)

lemma validateTuple_returns: "\<exists>r. validateTuple v cs = Inr r"
  by (simp add: validateTuple.simps split: sum.splits)

lemma validateParameterType_returns: "\<exists>r. validateParameterType value ty comps = Inr r"
proof (cases "value")
  case None
  then show ?thesis by (simp add: validateParameterType.simps)
next
  case (Some v)
  show ?thesis
    unfolding Some validateParameterType.simps
    using validateArray_returns validateTuple_returns
    by (simp split: option.splits)
qed

lemma validateArray_malformed:
  "JSON_parse v = Inl e \<Longrightarrow>
     validateArray v elementType comps expectedLength = Inr (Invalid ''Invalid JSON array format'')"
  by (simp add: validateArray.simps)

lemma validateTuple_malformed:
  "JSON_parse v = Inl e \<Longrightarrow> validateTuple v cs = Inr (Invalid ''Invalid JSON object format'')"
  by (simp add: validateTuple.simps)

text \<open>
  C9. For every value, type and components, \<open>validateParameterType\<close>, \<open>validateArray\<close> and
  \<open>validateTuple\<close> return a validation result and throw nothing; a value that
  \<^verbatim>\<open>JSON.parse\<close> refuses gives the results "Invalid JSON array format" and
  "Invalid JSON object format".
\<close>

theorem validation_total:
  "(\<exists>r. validateParameterType value ty comps = Inr r)
   \<and> (\<exists>r. validateArray v elementType comps expectedLength = Inr r)
   \<and> (\<exists>r. validateTuple v cs = Inr r)
   \<and> (JSON_parse v = Inl e \<longrightarrow>
         validateArray v elementType comps expectedLength = Inr (Invalid ''Invalid JSON array format'')
       \<and> validateTuple v cs = Inr (Invalid ''Invalid JSON object format''))"
  using validateParameterType_returns validateArray_returns validateTuple_returns
    validateArray_malformed validateTuple_malformed
  by blast

theorem validation_total_witness:
  "JSON_parse ''not json'' = Inl SyntaxError
   \<and> validateArray ''not json'' ''uint256'' None None = Inr (Invalid ''Invalid JSON array format'')
   \<and> validateTuple ''not json'' [AbiParameter ''to'' ''address'' None]
       = Inr (Invalid ''Invalid JSON object format'')
   \<and> (\<exists>r. validateParameterType (Some ''not json'') ''uint256[]'' None = Inr r)"
proof -
  have p: "JSON_parse ''not json'' = Inl SyntaxError" by code_simp
  from validation_total [of "Some ''not json''" "''uint256[]''" None "''not json''" "''uint256''" None
      "[AbiParameter ''to'' ''address'' None]" SyntaxError] p
  show ?thesis by simp
qed

subsection \<open>Tuples\<close>


definition assignProperties :: "(string \<times> 'v) list \<Rightarrow> (string \<times> 'v) list \<Rightarrow> (string \<times> 'v) list" where
  "assignProperties obj kvs = foldl (\<lambda>obj (k, v). assignProperty obj k v) obj kvs"

lemma assignProperties_Nil [simp]: "assignProperties obj [] = obj"
  by (simp add: assignProperties_def)

lemma assignProperties_Cons [simp]:
  "assignProperties obj ((k, v) # kvs) = assignProperties (assignProperty obj k v) kvs"
  by (simp add: assignProperties_def)


lemma getProperty_None_iff:
  "(getProperty obj k = None)
     = (map_of obj k = None
        \<and> k \<notin> set (''__proto__'' # ''constructor'' # methodNames ObjectPrototype))"
  by (simp add: getProperty_def inheritedProperty_def split: option.splits)

lemma validateTuple_parsed:
  "JSON_parse v = Inr (JSObject properties) \<Longrightarrow>
     validateTuple v cs =
       (case validateTuple_loop properties cs [] of
          Inl e \<Rightarrow> Inr (Invalid ''Invalid JSON object format'')
        | Inr r \<Rightarrow> Inr r)"
  by (simp add: validateTuple.simps)

lemma missing_message_only_if:
  "validateTuple_loop properties cs acc = Inr (Invalid (''Missing required field: '' @ n))
     \<Longrightarrow> getProperty properties n = None"
proof (induction cs arbitrary: acc)
  case Nil
  then show ?case by simp
next
  case (Cons c cs)
  then show ?case
    by (auto split: option.splits sum.splits ParameterValidationResult.splits)
qed

lemma loop_step:
  "getProperty properties (name c) = Some componentValue \<Longrightarrow>
   elementText componentValue = Inr valueStr \<Longrightarrow>
     validateTuple_loop properties (c # rest) acc =
       (case validateParameterType (Some valueStr) (type c) (components c) of
          Inl e \<Rightarrow> Inl e
        | Inr (Invalid err) \<Rightarrow>
            Inr (Invalid (''Invalid field '' @ [CHR 0x22] @ name c @ [CHR 0x22] @ '': '' @ err))
        | Inr (Valid normalizedValue) \<Rightarrow>
            validateTuple_loop properties rest (assignProperty acc (name c) normalizedValue))"
  by simp











subsection \<open>Dispatch to the integer validators\<close>

lemma parseType_not_array:
  "\<not> isArray (parseType ty) \<Longrightarrow>
     parseType ty =
       (if ty = ''tuple'' \<or> prefix ''tuple['' ty
        then \<lparr>baseType = ''tuple'', isArray = False, arrayDimensions = [], isTuple = True\<rparr>
        else \<lparr>baseType = ty, isArray = False, arrayDimensions = [], isTuple = False\<rparr>)"
  by (cases "ARRAY_TYPE_REGEX_match ty") (auto simp: parseType_def Let_def split: if_splits)

lemma parseType_integer:
  assumes "prefix ''uint'' ty \<or> prefix ''int'' ty" and "\<not> isArray (parseType ty)"
  shows "parseType ty = \<lparr>baseType = ty, isArray = False, arrayDimensions = [], isTuple = False\<rparr>"
    and "ty \<noteq> ''address''"
    and "prefix ''int'' ty \<Longrightarrow> \<not> prefix ''uint'' ty"
proof -
  from assms(1) obtain r where r: "ty = ''uint'' @ r \<or> ty = ''int'' @ r"
    by (auto elim: prefixE)
  then have nt: "ty \<noteq> ''tuple'' \<and> \<not> prefix ''tuple['' ty"
    by (auto simp: prefix_def)
  with assms(2) show "parseType ty = \<lparr>baseType = ty, isArray = False, arrayDimensions = [], isTuple = False\<rparr>"
    by (simp add: parseType_not_array)
  from r show "ty \<noteq> ''address''" by auto
  show "prefix ''int'' ty \<Longrightarrow> \<not> prefix ''uint'' ty"
    by (auto simp: prefix_def)
qed

lemma dispatch_uint:
  assumes "prefix ''uint'' ty" and "\<not> isArray (parseType ty)"
  shows "validateParameterType (Some v) ty comps
           = Inr (validateUint v (orDefault256 (parseInt (drop 4 ty))))"
  using assms parseType_integer [of ty]
  by (simp add: validateParameterType.simps)

lemma dispatch_int:
  assumes "prefix ''int'' ty" and "\<not> isArray (parseType ty)"
  shows "validateParameterType (Some v) ty comps
           = Inr (validateInt v (orDefault256 (parseInt (drop 3 ty))))"
  using assms parseType_integer [of ty]
  by (simp add: validateParameterType.simps)

lemma normalize_integer:
  assumes "prefix ''uint'' ty \<or> prefix ''int'' ty" and "\<not> isArray (parseType ty)"
  shows "normalizeParameterValue (JSString v) ty comps = Inr (JSString v)"
  using assms parseType_integer [of ty]
  by (auto simp: normalizeParameterValue.simps stringValueOf_def)

lemma validateUint_valid:
  "validateUint v bits = Valid nv \<Longrightarrow> \<exists>n. nv = JSBigInt n \<and> BigInt v = Inr n"
  by (auto simp: validateUint_def validateUint_try_def Let_def split: if_splits sum.splits)

lemma validateInt_valid:
  "validateInt v bits = Valid nv \<Longrightarrow> \<exists>n. nv = JSBigInt n \<and> BigInt v = Inr n"
  by (auto simp: validateInt_def validateInt_try_def Let_def split: if_splits sum.splits)

lemma validateUint_null: "validateUint ''null'' bits = Invalid ''Invalid number format''"
proof -
  have "trim ''null'' = ''null''" by code_simp
  moreover have "BigInt ''null'' = Inl SyntaxError" by code_simp
  ultimately show ?thesis by (simp add: validateUint_def validateUint_try_def)
qed

text \<open>
  C10. In the loop of \<open>validateTuple\<close> the error "Missing required field: <name>" is
  produced only for a name that reads as \<^verbatim>\<open>undefined\<close> from the parsed object, and it is
  produced when the loop reaches a component whose name reads as \<^verbatim>\<open>undefined\<close>. A
  component whose name reads a value is present: the text of the value goes to the
  dispatcher with the type and the components of the component, an invalid result comes
  back as the error of the field, and a valid one lets the loop go on. A field whose value
  is JSON null is present, its text is \<^verbatim>\<open>null\<close>, and the result is never the missing-field
  error of that name; for a component of a uint type it is the nested number-format error.
\<close>

theorem missing_field_iff_undefined:
  "(validateTuple_loop properties cs acc = Inr (Invalid (''Missing required field: '' @ n))
       \<longrightarrow> getProperty properties n = None)
   \<and> (getProperty properties (name c) = None
       \<longrightarrow> validateTuple_loop properties (c # rest) acc
             = Inr (Invalid (''Missing required field: '' @ name c)))
   \<and> (getProperty properties (name c) = Some JSNull \<and> prefix ''uint'' (type c)
         \<and> \<not> isArray (parseType (type c))
       \<longrightarrow> elementText JSNull = Inr ''null''
         \<and> validateTuple_loop properties (c # rest) acc
             = Inr (Invalid (''Invalid field '' @ [CHR 0x22] @ name c @ [CHR 0x22]
                             @ '': Invalid number format'')))
   \<and> (JSON_parse v = Inr (JSObject properties)
       \<longrightarrow> validateTuple v cs =
             (case validateTuple_loop properties cs [] of
                Inl e \<Rightarrow> Inr (Invalid ''Invalid JSON object format'')
              | Inr r \<Rightarrow> Inr r))
   \<and> (getProperty properties (name c) = Some componentValue
         \<and> elementText componentValue = Inr valueStr
       \<longrightarrow> validateTuple_loop properties (c # rest) acc =
             (case validateParameterType (Some valueStr) (type c) (components c) of
                Inl e \<Rightarrow> Inl e
              | Inr (Invalid err) \<Rightarrow>
                  Inr (Invalid (''Invalid field '' @ [CHR 0x22] @ name c @ [CHR 0x22] @ '': '' @ err))
              | Inr (Valid normalizedValue) \<Rightarrow>
                  validateTuple_loop properties rest (assignProperty acc (name c) normalizedValue)))
   \<and> (getProperty properties (name c) = Some JSNull
       \<longrightarrow> validateTuple_loop properties (c # rest) acc =
             (case validateParameterType (Some ''null'') (type c) (components c) of
                Inl e \<Rightarrow> Inl e
              | Inr (Invalid err) \<Rightarrow>
                  Inr (Invalid (''Invalid field '' @ [CHR 0x22] @ name c @ [CHR 0x22] @ '': '' @ err))
              | Inr (Valid normalizedValue) \<Rightarrow>
                  validateTuple_loop properties rest (assignProperty acc (name c) normalizedValue))
         \<and> validateTuple_loop properties (c # rest) acc
             \<noteq> Inr (Invalid (''Missing required field: '' @ name c)))
   \<and> (getProperty properties k = None)
       = (map_of properties k = None
          \<and> k \<notin> set (''__proto__'' # ''constructor'' # methodNames ObjectPrototype))"
proof (intro conjI impI)
  assume "validateTuple_loop properties cs acc = Inr (Invalid (''Missing required field: '' @ n))"
  then show "getProperty properties n = None" by (rule missing_message_only_if)
next
  assume "getProperty properties (name c) = None"
  then show "validateTuple_loop properties (c # rest) acc
             = Inr (Invalid (''Missing required field: '' @ name c))"
    by simp
next
  show "elementText JSNull = Inr ''null''"
    by (simp add: elementText_def typeofObject_def stringifyText_def)
next
  assume a: "getProperty properties (name c) = Some JSNull \<and> prefix ''uint'' (type c)
         \<and> \<not> isArray (parseType (type c))"
  have t: "elementText JSNull = Inr ''null''"
    by (simp add: elementText_def typeofObject_def stringifyText_def)
  have "validateParameterType (Some ''null'') (type c) (components c)
      = Inr (Invalid ''Invalid number format'')"
    using a by (simp add: dispatch_uint validateUint_null)
  then show "validateTuple_loop properties (c # rest) acc
             = Inr (Invalid (''Invalid field '' @ [CHR 0x22] @ name c @ [CHR 0x22]
                             @ '': Invalid number format''))"
    using a t by simp
next
  assume "JSON_parse v = Inr (JSObject properties)"
  then show "validateTuple v cs =
             (case validateTuple_loop properties cs [] of
                Inl e \<Rightarrow> Inr (Invalid ''Invalid JSON object format'')
              | Inr r \<Rightarrow> Inr r)"
    by (rule validateTuple_parsed)
next
  assume "getProperty properties (name c) = Some componentValue
         \<and> elementText componentValue = Inr valueStr"
  then show "validateTuple_loop properties (c # rest) acc =
             (case validateParameterType (Some valueStr) (type c) (components c) of
                Inl e \<Rightarrow> Inl e
              | Inr (Invalid err) \<Rightarrow>
                  Inr (Invalid (''Invalid field '' @ [CHR 0x22] @ name c @ [CHR 0x22] @ '': '' @ err))
              | Inr (Valid normalizedValue) \<Rightarrow>
                  validateTuple_loop properties rest (assignProperty acc (name c) normalizedValue))"
    using loop_step by blast
next
  assume g: "getProperty properties (name c) = Some JSNull"
  have t: "elementText JSNull = Inr ''null''"
    by (simp add: elementText_def typeofObject_def stringifyText_def)
  show s: "validateTuple_loop properties (c # rest) acc =
             (case validateParameterType (Some ''null'') (type c) (components c) of
                Inl e \<Rightarrow> Inl e
              | Inr (Invalid err) \<Rightarrow>
                  Inr (Invalid (''Invalid field '' @ [CHR 0x22] @ name c @ [CHR 0x22] @ '': '' @ err))
              | Inr (Valid normalizedValue) \<Rightarrow>
                  validateTuple_loop properties rest (assignProperty acc (name c) normalizedValue))"
    by (rule loop_step [OF g t])
  show "validateTuple_loop properties (c # rest) acc
             \<noteq> Inr (Invalid (''Missing required field: '' @ name c))"
  proof
    assume "validateTuple_loop properties (c # rest) acc
             = Inr (Invalid (''Missing required field: '' @ name c))"
    then have "getProperty properties (name c) = None" by (rule missing_message_only_if)
    with g show False by simp
  qed
next
  show "(getProperty properties k = None)
       = (map_of properties k = None
          \<and> k \<notin> set (''__proto__'' # ''constructor'' # methodNames ObjectPrototype))"
    by (rule getProperty_None_iff)
qed

theorem missing_field_iff_undefined_witness:
  "validateTuple ''{\"a\":null}'' [AbiParameter ''a'' ''uint256'' None]
     = Inr (Invalid (''Invalid field '' @ [CHR 0x22] @ ''a'' @ [CHR 0x22] @ '': Invalid number format''))
   \<and> validateTuple ''{\"a\":null}'' [AbiParameter ''b'' ''uint256'' None]
     = Inr (Invalid ''Missing required field: b'')
   \<and> getProperty [(''a'', JSNull)] ''b'' = None
   \<and> validateTuple_loop [(''a'', JSNull)] [AbiParameter ''a'' ''uint256'' None] []
       \<noteq> Inr (Invalid ''Missing required field: a'')
   \<and> validateTuple ''{\"a\":null}'' [AbiParameter ''a'' ''bool'' None]
     = Inr (Invalid (''Invalid field '' @ [CHR 0x22] @ ''a'' @ [CHR 0x22]
                     @ '': Must be '' @ [CHR 0x22] @ ''true'' @ [CHR 0x22] @ '' or ''
                     @ [CHR 0x22] @ ''false'' @ [CHR 0x22]))
   \<and> validateTuple ''{\"a\":null}'' [AbiParameter ''a'' ''string'' None]
     = Inr (Valid (JSObject [(''a'', JSString ''null'')]))
   \<and> validateTuple ''{\"a\":null}'' [AbiParameter ''constructor'' ''uint256'' None]
     = Inr (Invalid (''Invalid field '' @ [CHR 0x22] @ ''constructor'' @ [CHR 0x22]
                     @ '': Invalid number format''))"
proof -
  let ?a = "AbiParameter ''a'' ''uint256'' None"
  let ?b = "AbiParameter ''b'' ''uint256'' None"
  let ?ab = "AbiParameter ''a'' ''bool'' None"
  let ?as = "AbiParameter ''a'' ''string'' None"
  let ?c = "AbiParameter ''constructor'' ''uint256'' None"
  let ?p = "[(''a'', JSNull)]"
  let ?v = "''{\"a\":null}''"
  let ?f = "''function Object() { [native code] }''"
  have j: "JSON_parse ?v = Inr (JSObject ?p)" by code_simp
  have na: "\<not> isArray (parseType ''uint256'')" by code_simp
  have ga: "getProperty ?p (name ?a) = Some JSNull" by code_simp
  have gb: "getProperty ?p (name ?b) = None" by code_simp
  have gab: "getProperty ?p (name ?ab) = Some JSNull" by code_simp
  have gas: "getProperty ?p (name ?as) = Some JSNull" by code_simp
  have gc: "getProperty ?p (name ?c) = Some (JSFunction ''Object'')" by code_simp
  have tc: "elementText (JSFunction ''Object'') = Inr ?f" by code_simp
  have pa: "prefix ''uint'' (type ?a)" by simp
  have na': "\<not> isArray (parseType (type ?a))" using na by simp
  have vb: "validateParameterType (Some ''null'') (type ?ab) (components ?ab)
      = Inr (Invalid (''Must be '' @ [CHR 0x22] @ ''true'' @ [CHR 0x22] @ '' or ''
                     @ [CHR 0x22] @ ''false'' @ [CHR 0x22]))"
    by code_simp
  have vs: "validateParameterType (Some ''null'') (type ?as) (components ?as)
      = Inr (Valid (JSString ''null''))"
    by code_simp
  have vc: "validateParameterType (Some ?f) (type ?c) (components ?c)
      = Inr (Invalid ''Invalid number format'')"
    by code_simp
  have e: "validateTuple_loop ?p [] (assignProperty [] (name ?as) (JSString ''null''))
      = Inr (Valid (JSObject [(''a'', JSString ''null'')]))"
    by code_simp
  note Ta = missing_field_iff_undefined [of ?p "[?a]" "[]" "''b''" ?a "[]" ?v JSNull "''null''" "''b''"]
  note Tb = missing_field_iff_undefined [of ?p "[?b]" "[]" "''b''" ?b "[]" ?v JSNull "''null''" "''b''"]
  note Tab = missing_field_iff_undefined [of ?p "[?ab]" "[]" "''b''" ?ab "[]" ?v JSNull "''null''" "''b''"]
  note Tas = missing_field_iff_undefined [of ?p "[?as]" "[]" "''b''" ?as "[]" ?v JSNull "''null''" "''b''"]
  note Tc = missing_field_iff_undefined [of ?p "[?c]" "[]" "''b''" ?c "[]" ?v "JSFunction ''Object''"
      ?f "''b''"]
  have la: "validateTuple_loop ?p [?a] []
      = Inr (Invalid (''Invalid field '' @ [CHR 0x22] @ name ?a @ [CHR 0x22] @ '': Invalid number format''))"
    using Ta ga pa na' by blast
  have va: "validateTuple ?v [?a] =
             (case validateTuple_loop ?p [?a] [] of
                Inl e \<Rightarrow> Inr (Invalid ''Invalid JSON object format'')
              | Inr r \<Rightarrow> Inr r)"
    using Ta j by blast
  have c1: "validateTuple ?v [?a]
     = Inr (Invalid (''Invalid field '' @ [CHR 0x22] @ ''a'' @ [CHR 0x22] @ '': Invalid number format''))"
    unfolding va la by simp
  have lb: "validateTuple_loop ?p [?b] [] = Inr (Invalid (''Missing required field: '' @ name ?b))"
    using Tb gb by blast
  have vb': "validateTuple ?v [?b] =
             (case validateTuple_loop ?p [?b] [] of
                Inl e \<Rightarrow> Inr (Invalid ''Invalid JSON object format'')
              | Inr r \<Rightarrow> Inr r)"
    using Tb j by blast
  have c2: "validateTuple ?v [?b] = Inr (Invalid ''Missing required field: b'')"
    unfolding vb' lb by simp
  have lab: "validateTuple_loop ?p [?ab] [] =
             (case validateParameterType (Some ''null'') (type ?ab) (components ?ab) of
                Inl e \<Rightarrow> Inl e
              | Inr (Invalid err) \<Rightarrow>
                  Inr (Invalid (''Invalid field '' @ [CHR 0x22] @ name ?ab @ [CHR 0x22] @ '': '' @ err))
              | Inr (Valid normalizedValue) \<Rightarrow>
                  validateTuple_loop ?p [] (assignProperty [] (name ?ab) normalizedValue))"
    using Tab gab by blast
  have vab: "validateTuple ?v [?ab] =
             (case validateTuple_loop ?p [?ab] [] of
                Inl e \<Rightarrow> Inr (Invalid ''Invalid JSON object format'')
              | Inr r \<Rightarrow> Inr r)"
    using Tab j by blast
  have c3: "validateTuple ?v [?ab]
     = Inr (Invalid (''Invalid field '' @ [CHR 0x22] @ ''a'' @ [CHR 0x22]
                     @ '': Must be '' @ [CHR 0x22] @ ''true'' @ [CHR 0x22] @ '' or ''
                     @ [CHR 0x22] @ ''false'' @ [CHR 0x22]))"
    unfolding vab lab vb by simp
  have las: "validateTuple_loop ?p [?as] [] =
             (case validateParameterType (Some ''null'') (type ?as) (components ?as) of
                Inl e \<Rightarrow> Inl e
              | Inr (Invalid err) \<Rightarrow>
                  Inr (Invalid (''Invalid field '' @ [CHR 0x22] @ name ?as @ [CHR 0x22] @ '': '' @ err))
              | Inr (Valid normalizedValue) \<Rightarrow>
                  validateTuple_loop ?p [] (assignProperty [] (name ?as) normalizedValue))"
    using Tas gas by blast
  have vas: "validateTuple ?v [?as] =
             (case validateTuple_loop ?p [?as] [] of
                Inl e \<Rightarrow> Inr (Invalid ''Invalid JSON object format'')
              | Inr r \<Rightarrow> Inr r)"
    using Tas j by blast
  have c4: "validateTuple ?v [?as] = Inr (Valid (JSObject [(''a'', JSString ''null'')]))"
    unfolding vas las vs using e by simp
  have lc: "validateTuple_loop ?p [?c] [] =
             (case validateParameterType (Some ?f) (type ?c) (components ?c) of
                Inl e \<Rightarrow> Inl e
              | Inr (Invalid err) \<Rightarrow>
                  Inr (Invalid (''Invalid field '' @ [CHR 0x22] @ name ?c @ [CHR 0x22] @ '': '' @ err))
              | Inr (Valid normalizedValue) \<Rightarrow>
                  validateTuple_loop ?p [] (assignProperty [] (name ?c) normalizedValue))"
    using Tc gc tc by blast
  have vc': "validateTuple ?v [?c] =
             (case validateTuple_loop ?p [?c] [] of
                Inl e \<Rightarrow> Inr (Invalid ''Invalid JSON object format'')
              | Inr r \<Rightarrow> Inr r)"
    using Tc j by blast
  have c5: "validateTuple ?v [?c]
     = Inr (Invalid (''Invalid field '' @ [CHR 0x22] @ ''constructor'' @ [CHR 0x22]
                     @ '': Invalid number format''))"
    unfolding vc' lc vc by simp
  have lb': "validateTuple_loop ?p [?b] [] = Inr (Invalid (''Missing required field: '' @ ''b''))"
    using lb by simp
  note gb' = Tb [THEN conjunct1, THEN mp, OF lb']
  have "validateTuple_loop ?p [?a] [] \<noteq> Inr (Invalid (''Missing required field: '' @ name ?a))"
    using Ta ga by blast
  then have c6: "validateTuple_loop ?p [?a] [] \<noteq> Inr (Invalid ''Missing required field: a'')"
    by simp
  show ?thesis
    by (rule conjI [OF c1 conjI [OF c2 conjI [OF gb' conjI [OF c6 conjI [OF c3 conjI [OF c4 c5]]]]]])
qed

subsection \<open>Normalizing integers\<close>

text \<open>
  C4, as stated, fails: the text \<^verbatim>\<open>007\<close> validates as the uint256 value 7, whose decimal
  text is \<^verbatim>\<open>7\<close>, and \<open>normalizeParameterValue\<close> returns the input \<^verbatim>\<open>007\<close>.
\<close>

theorem normalize_integer_counterexample:
  "validateParameterType (Some ''007'') ''uint256'' None = Inr (Valid (JSBigInt 7))
   \<and> toString_int 7 = ''7''
   \<and> normalizeParameterValue (JSString ''007'') ''uint256'' None = Inr (JSString ''007'')
   \<and> normalizeParameterValue (JSString ''007'') ''uint256'' None \<noteq> Inr (JSString (toString_int 7))"
proof -
  have a: "validateParameterType (Some ''007'') ''uint256'' None = Inr (Valid (JSBigInt 7))"
    by code_simp
  have b: "toString_int 7 = ''7''" by code_simp
  have c: "normalizeParameterValue (JSString ''007'') ''uint256'' None = Inr (JSString ''007'')"
    by code_simp
  from a b c show ?thesis by simp
qed

text \<open>
  C4, amended. For an integer type (a type that starts with \<^verbatim>\<open>uint\<close> or \<^verbatim>\<open>int\<close> and is no
  array type), \<open>normalizeParameterValue\<close> returns the input text itself; when the text
  validates, the validator's normalized value is the integer that \<^verbatim>\<open>BigInt\<close> reads from
  that text, so the returned text denotes the validated integer, and it is the decimal
  text of that integer when the input was written that way.
\<close>

theorem normalize_integer_raw_text:
  "\<not> isArray (parseType ty) \<and> (prefix ''uint'' ty \<or> prefix ''int'' ty) \<longrightarrow>
     normalizeParameterValue (JSString v) ty comps = Inr (JSString v)
     \<and> (validateParameterType (Some v) ty comps = Inr (Valid nv)
          \<longrightarrow> (\<exists>n. nv = JSBigInt n \<and> BigInt v = Inr n))
     \<and> (v = toString_int n
          \<longrightarrow> normalizeParameterValue (JSString v) ty comps = Inr (JSString (toString_int n)))"
proof (intro impI conjI)
  assume a: "\<not> isArray (parseType ty) \<and> (prefix ''uint'' ty \<or> prefix ''int'' ty)"
  then show n: "normalizeParameterValue (JSString v) ty comps = Inr (JSString v)"
    by (simp add: normalize_integer)
  then show "v = toString_int n
      \<Longrightarrow> normalizeParameterValue (JSString v) ty comps = Inr (JSString (toString_int n))"
    by simp
  assume valid: "validateParameterType (Some v) ty comps = Inr (Valid nv)"
  from a show "\<exists>n. nv = JSBigInt n \<and> BigInt v = Inr n"
  proof (elim conjE disjE)
    assume "\<not> isArray (parseType ty)" "prefix ''uint'' ty"
    with valid show ?thesis by (auto simp: dispatch_uint dest: validateUint_valid)
  next
    assume "\<not> isArray (parseType ty)" "prefix ''int'' ty"
    with valid show ?thesis by (auto simp: dispatch_int dest: validateInt_valid)
  qed
qed

theorem normalize_integer_raw_text_witness:
  "normalizeParameterValue (JSString ''0x10'') ''uint8'' None = Inr (JSString ''0x10'')
   \<and> validateParameterType (Some ''0x10'') ''uint8'' None = Inr (Valid (JSBigInt 16))
   \<and> BigInt ''0x10'' = Inr 16"
proof -
  have na: "\<not> isArray (parseType ''uint8'')" by code_simp
  have p: "prefix ''uint'' ''uint8''" by simp
  have v: "validateParameterType (Some ''0x10'') ''uint8'' None = Inr (Valid (JSBigInt 16))"
    by code_simp
  from normalize_integer_raw_text [of "''uint8''" "''0x10''" None "JSBigInt 16" 16] na p v
  show ?thesis by simp
qed

subsection \<open>Arrays\<close>










subsection \<open>The round trip\<close>

text \<open>
  C2 at the value \<^verbatim>\<open>" true"\<close> of type \<^verbatim>\<open>bool\<close>: the validator trims the text and accepts it
  as true, the normalizer compares the untrimmed text with \<^verbatim>\<open>true\<close> and returns false,
  and the denormalizer prints \<^verbatim>\<open>false\<close>, which validates as false.
\<close>

theorem roundtrip_bool_untrimmed:
  "validateParameterType (Some '' true'') ''bool'' None = Inr (Valid (JSBoolean True))
   \<and> normalizeParameterValue (JSString '' true'') ''bool'' None = Inr (JSBoolean False)
   \<and> denormalizeParameterValue (Some (JSBoolean False)) ''bool'' None = Inr ''false''
   \<and> validateParameterType (Some ''false'') ''bool'' None = Inr (Valid (JSBoolean False))"
proof -
  have a: "validateParameterType (Some '' true'') ''bool'' None = Inr (Valid (JSBoolean True))"
    by code_simp
  have b: "normalizeParameterValue (JSString '' true'') ''bool'' None = Inr (JSBoolean False)"
    by code_simp
  have c: "denormalizeParameterValue (Some (JSBoolean False)) ''bool'' None = Inr ''false''"
    by code_simp
  have d: "validateParameterType (Some ''false'') ''bool'' None = Inr (Valid (JSBoolean False))"
    by code_simp
  from a b c d show ?thesis by simp
qed

section \<open>Properties of the action assembly\<close>













end
